theory Spec2Isabelle
  imports Complex_Main
begin

section \<open>Errors\<close>

text \<open>
  Every \<^verbatim>\<open>raise\<close> of the modelled sources is one constructor, named after the Python
  exception class and the raise site. Failures of the numeric library and of the Python
  runtime that the sources rely on (broadcasting, tuple unpacking, attribute lookup) have
  constructors of their own.
\<close>

datatype error =
    ValueError_request_time_after_current    \<comment> \<open>\<^verbatim>\<open>TimeDelay._check_time1\<close>\<close>
  | ValueError_request_time_out_of_range     \<comment> \<open>\<^verbatim>\<open>TimeDelay._check_time2\<close>\<close>
  | ValueError_request_delay_too_long        \<comment> \<open>\<^verbatim>\<open>LengthDelay._check_delay\<close>\<close>
  | ValueError_value_shape                   \<comment> \<open>\<^verbatim>\<open>LengthDelay.update\<close>\<close>
  | ValueError_delay_len_none                \<comment> \<open>\<^verbatim>\<open>LengthDelay.reset\<close>\<close>
  | ValueError_delay_data_unsupported        \<comment> \<open>\<^verbatim>\<open>"delay_data" does not support ...\<close>\<close>
  | ValueError_before_t0_unsupported         \<comment> \<open>\<^verbatim>\<open>"before_t0" does not support ...\<close>\<close>
  | ValueError_check_bound                   \<comment> \<open>\<^verbatim>\<open>check_float\<close>, \<^verbatim>\<open>check_integer\<close>: below \<^verbatim>\<open>min_bound\<close>\<close>
  | UnsupportedError_interp_method
  | ZeroDivisionError
  | ValueError_broadcast                     \<comment> \<open>the array library: shapes cannot be broadcast\<close>
  | ValueError_bad_dimensions                \<comment> \<open>the array library: non-positive leading dimension\<close>
  | TypeError_not_numeric                    \<comment> \<open>the array library: an operand is not a number\<close>
  | TypeError_not_iterable                   \<comment> \<open>iterating or unpacking a value that is not iterable\<close>
  | ValueError_unpack                        \<comment> \<open>too many, or not enough, values to unpack\<close>
  | TypeError_unhashable                     \<comment> \<open>a list or array used as a dictionary key\<close>
  | TypeError_keywords                       \<comment> \<open>\<^verbatim>\<open>f(**d)\<close> with a key that is not a string\<close>
  | ValueError_max_of_empty                  \<comment> \<open>\<^verbatim>\<open>max([])\<close>\<close>
  | ValueError_geometry_dimensions           \<comment> \<open>\<^verbatim>\<open>Do not support 3+ dimensional networks.\<close>\<close>
  | ValueError_geometry_type                 \<comment> \<open>the bare \<^verbatim>\<open>ValueError()\<close> of \<^verbatim>\<open>NeuGroup.__call__\<close>\<close>
  | AssertionError_vars_init                 \<comment> \<open>\<^verbatim>\<open>"vars_init" must be a dict.\<close>\<close>
  | AssertionError_pars_update               \<comment> \<open>\<^verbatim>\<open>"pars_update" must be a dict.\<close>\<close>
  | KeyError_variable_not_defined            \<comment> \<open>\<^verbatim>\<open>variable "k" is not defined in ...\<close>\<close>
  | ValueError_parameter_size                \<comment> \<open>\<^verbatim>\<open>The size of parameter "k" is wrong\<close>\<close>
  | ValueError_step_funcs                    \<comment> \<open>\<^verbatim>\<open>"step_funcs" must be a callable, or ...\<close>\<close>
  | ValueError_unknown_object_type           \<comment> \<open>\<^verbatim>\<open>Unknown object type ... Network only support ...\<close>\<close>
  | KeyError_name_used                       \<comment> \<open>\<^verbatim>\<open>Name "..." has been used in the network\<close>\<close>
  | AssertionError_mode                      \<comment> \<open>\<^verbatim>\<open>assert mode in ['once', 'repeat']\<close>\<close>
  | ModelUseError_inputs_type                \<comment> \<open>\<^verbatim>\<open>"inputs" must be a tuple/list.\<close>\<close>
  | ModelUseError_unknown_input_structure    \<comment> \<open>\<^verbatim>\<open>Unknown input structure.\<close>\<close>
  | ModelUseError_spec_fields                \<comment> \<open>\<^verbatim>\<open>For each target, you must specify ...\<close>\<close>
  | ModelUseError_input_operation            \<comment> \<open>\<^verbatim>\<open>Input operation only support ...\<close>\<close>
  | KeyError_unknown_input_target            \<comment> \<open>\<^verbatim>\<open>Unknown input target: ...\<close>\<close>
  | ModelUseError_input_key                  \<comment> \<open>\<^verbatim>\<open>For each input, input[1] must be a string ...\<close>\<close>
  | ModelUseError_input_value                \<comment> \<open>\<^verbatim>\<open>For each input, input[2] must be a numerical value ...\<close>\<close>
  | AssertionError_duration                  \<comment> \<open>\<^verbatim>\<open>Only support duration with the format of "(start, end)".\<close>\<close>
  | ValueError_unknown_duration_type         \<comment> \<open>\<^verbatim>\<open>Unknown duration type: ...\<close>\<close>
  | ModelUseError_duration_mismatch          \<comment> \<open>\<^verbatim>\<open>Each run in "repeat" mode must be done with the same duration\<close>\<close>
  | ModelUseError_input_shape_mismatch       \<comment> \<open>\<^verbatim>\<open>The input shape for "key" should keep the same.\<close>\<close>
  | ModelUseError_input_operation_mismatch   \<comment> \<open>\<^verbatim>\<open>The input operation for "key" should keep the same.\<close>\<close>
  | ModelUseError_inputs_not_provided        \<comment> \<open>\<^verbatim>\<open>The inputs of ... are not provided.\<close>\<close>
  | AttributeError_network                   \<comment> \<open>\<^verbatim>\<open>getattr(self, name)\<close> for a name that is no attribute\<close>
  | AttributeError_runner                    \<comment> \<open>\<^verbatim>\<open>getattr(obj.runner, name)\<close> for a name that is no attribute\<close>
  | KeyError_runner_inputs                   \<comment> \<open>\<^verbatim>\<open>obj_inputs[key]\<close> for a key that is not present\<close>
  | ValueError_list_remove                   \<comment> \<open>\<^verbatim>\<open>list.remove(x)\<close>: x not in list\<close>
  | TypeError_item_assignment                \<comment> \<open>\<^verbatim>\<open>x[:] = v\<close> for an x that is no array\<close>
  | IndexError_shape                         \<comment> \<open>\<^verbatim>\<open>val.shape[0]\<close> of a zero-dimensional array\<close>
  | IndexError_ts                            \<comment> \<open>\<^verbatim>\<open>ts[0]\<close> of an empty array\<close>
  | Error_arange_zero_step                   \<comment> \<open>the array library: \<^verbatim>\<open>arange\<close> with step 0\<close>
  | TypeError_not_callable                   \<comment> \<open>calling \<^verbatim>\<open>self._step_func\<close> while it is \<^verbatim>\<open>None\<close>\<close>
  | SyntaxError_step_function                \<comment> \<open>\<^verbatim>\<open>compile\<close> rejects the assembled code\<close>
  | External_error nat                       \<comment> \<open>raised by code outside the modelled sources\<close>

section \<open>The numeric substrate\<close>

text \<open>
  A tensor is its shape and its elements in row-major order. Times and samples are
  rationals: the arithmetic of the sources is modelled exactly, without rounding.
\<close>

datatype tensor = Tensor (tshape: "nat list") (telems: "rat list")

definition wf_tensor :: "tensor \<Rightarrow> bool" where
  "wf_tensor x = (length (telems x) = prod_list (tshape x))"

definition zeros :: "nat list \<Rightarrow> tensor" where
  "zeros s = Tensor s (replicate (prod_list s) 0)"

definition scalar :: "rat \<Rightarrow> tensor" where
  "scalar x = Tensor [] [x]"

fun chunks :: "nat \<Rightarrow> nat \<Rightarrow> 'a list \<Rightarrow> 'a list list" where
  "chunks 0 n xs = []"
| "chunks (Suc k) n xs = take n xs # chunks k n (drop n xs)"

text \<open>
  Broadcasting of elements from a shape to a shape of the same rank: a dimension either
  agrees or is 1 in the source shape, in which case the block is repeated.
\<close>

fun bcast :: "nat list \<Rightarrow> nat list \<Rightarrow> rat list \<Rightarrow> rat list option" where
  "bcast [] [] xs = Some xs"
| "bcast (a # s) (b # t) xs =
     (if a = b then
        map_option concat (those (map (bcast s t) (chunks a (prod_list s) xs)))
      else if a = 1 then map_option (\<lambda>ys. concat (replicate b ys)) (bcast s t xs)
      else None)"
| "bcast _ _ _ = None"

definition broadcast_to :: "tensor \<Rightarrow> nat list \<Rightarrow> error + tensor" where
  "broadcast_to x t =
     (if length t < length (tshape x) then Inl ValueError_broadcast
      else case bcast (replicate (length t - length (tshape x)) 1 @ tshape x) t (telems x) of
             None \<Rightarrow> Inl ValueError_broadcast
           | Some ys \<Rightarrow> Inr (Tensor t ys))"

text \<open>The slots of a tensor along its first axis.\<close>

definition unstack :: "tensor \<Rightarrow> tensor list" where
  "unstack x = (case tshape x of
       [] \<Rightarrow> []
     | n # s \<Rightarrow> map (Tensor s) (chunks n (prod_list s) (telems x)))"

text \<open>
  Reading a slot of an array of the array library with a computed index: a negative index
  counts from the end, and an index that is still outside the array is clamped to the
  nearest valid slot (the library does not raise on an out-of-range read).
\<close>

definition norm_index :: "int \<Rightarrow> int \<Rightarrow> int" where
  "norm_index n i = (if i < 0 then i + n else i)"

definition getitem :: "tensor list \<Rightarrow> int \<Rightarrow> tensor" where
  "getitem xs i =
     xs ! nat (max 0 (min (int (length xs) - 1) (norm_index (int (length xs)) i)))"

text \<open>
  Writing a slot: the value is broadcast to the slot's shape; a write outside the array
  is dropped.
\<close>

definition setitem :: "nat list \<Rightarrow> tensor list \<Rightarrow> int \<Rightarrow> tensor \<Rightarrow> error + tensor list" where
  "setitem s xs i v =
     (case broadcast_to v s of
        Inl e \<Rightarrow> Inl e
      | Inr w \<Rightarrow>
          (let j = norm_index (int (length xs)) i
           in if 0 \<le> j \<and> j < int (length xs) then Inr (xs[nat j := w]) else Inr xs))"

text \<open>\<^verbatim>\<open>data[:-1] = v\<close>: every slot but the last is overwritten by the broadcast value.\<close>

definition set_all_but_last :: "nat list \<Rightarrow> tensor list \<Rightarrow> tensor \<Rightarrow> error + tensor list" where
  "set_all_but_last s xs v =
     (case broadcast_to v ((length xs - 1) # s) of
        Inl e \<Rightarrow> Inl e
      | Inr w \<Rightarrow> Inr (unstack w @ drop (length xs - 1) xs))"

text \<open>
  Piecewise-linear lookup \<^verbatim>\<open>interp(x, [0, dt], [f0, f1])\<close> of the array library on two
  sample points, for one element: linear between the points, constant outside.
\<close>

definition interp2 :: "rat \<Rightarrow> rat \<Rightarrow> rat \<Rightarrow> rat \<Rightarrow> rat" where
  "interp2 x d f0 f1 =
     (if x < 0 then f0 else if d < x then f1
      else if d = 0 then f1 else f0 + (x / d) * (f1 - f0))"

text \<open>Conversion of a float to a 32-bit integer index: truncation towards zero.\<close>

definition trunc :: "rat \<Rightarrow> int" where
  "trunc x = (if 0 \<le> x then \<lfloor>x\<rfloor> else \<lceil>x\<rceil>)"

text \<open>Rounding to the nearest integer, halves to the even neighbour.\<close>

definition round_half_even :: "rat \<Rightarrow> int" where
  "round_half_even x =
     (let f = \<lfloor>x\<rfloor>; r = x - of_int f
      in if r < 1/2 then f else if 1/2 < r then f + 1
         else if even f then f else f + 1)"

section \<open>Delay variables (\<^verbatim>\<open>brainpy/math/delayvars.py\<close>)\<close>

text \<open>
  The attributes that \<^verbatim>\<open>TimeDelay\<close> and \<^verbatim>\<open>LengthDelay\<close> both define: the shape of a
  sample, the number of ring slots, the write index and the ring itself, one tensor per
  slot.
\<close>

record AbstractDelay =
  shape :: "nat list"
  num_delay_step :: int
  idx :: int
  data :: "tensor list"

subsection \<open>\<^verbatim>\<open>LengthDelay\<close>\<close>

type_synonym LengthDelay = AbstractDelay

datatype initial_delay_data =
    InitNone
  | InitArray tensor                        \<comment> \<open>an array or a number\<close>
  | InitCallable "nat list \<Rightarrow> tensor"        \<comment> \<open>called with the shape to fill\<close>
  | InitUnsupported

text \<open>
  \<^verbatim>\<open>LengthDelay.reset\<close>; the first argument is the number of slots the object had
  before, \<open>None\<close> for an object under construction.
\<close>

definition LengthDelay_reset ::
  "int option \<Rightarrow> tensor \<Rightarrow> int option \<Rightarrow> initial_delay_data \<Rightarrow> error + LengthDelay" where
  "LengthDelay_reset old_num delay_target delay_len initial =
     (case (case delay_len of
              Some l \<Rightarrow> if l < 0 then Inl ValueError_check_bound else Inr l
            | None \<Rightarrow> (case old_num of None \<Rightarrow> Inl ValueError_delay_len_none
                                    | Some n \<Rightarrow> Inr (n - 1))) of
        Inl e \<Rightarrow> Inl e
      | Inr l \<Rightarrow>
          (let s = tshape delay_target;
               n = l + 1;
               blank = replicate (nat n) (zeros s)
           in if n \<le> 0 then Inl ValueError_bad_dimensions
              else case setitem s blank (-1) delay_target of
                Inl e \<Rightarrow> Inl e
              | Inr d \<Rightarrow>
                 (case (case initial of
                          InitNone \<Rightarrow> Inr d
                        | InitArray a \<Rightarrow> set_all_but_last s d a
                        | InitCallable f \<Rightarrow> set_all_but_last s d (f (nat l # s))
                        | InitUnsupported \<Rightarrow> Inl ValueError_delay_data_unsupported) of
                    Inl e \<Rightarrow> Inl e
                  | Inr d' \<Rightarrow>
                      Inr \<lparr>shape = s, num_delay_step = n, idx = 0, data = d'\<rparr>)))"

definition LengthDelay_init ::
  "tensor \<Rightarrow> int option \<Rightarrow> initial_delay_data \<Rightarrow> error + LengthDelay" where
  "LengthDelay_init delay_target delay_len initial =
     LengthDelay_reset None delay_target delay_len initial"

text \<open>
  \<^verbatim>\<open>LengthDelay.__call__\<close> with an integer \<^verbatim>\<open>delay_len\<close>; \<open>checking\<close> is the value of
  \<^verbatim>\<open>check.is_checking()\<close>, and \<open>indices\<close> the further indexing of the slot that the
  optional \<^verbatim>\<open>*indices\<close> select (\<open>None\<close> when there are none).
\<close>

definition LengthDelay_call ::
  "bool \<Rightarrow> LengthDelay \<Rightarrow> int \<Rightarrow> (tensor \<Rightarrow> error + tensor) option \<Rightarrow> error + tensor" where
  "LengthDelay_call checking self delay_len indices =
     (if checking \<and> delay_len \<ge> num_delay_step self
      then Inl ValueError_request_delay_too_long
      else let delay_idx = (idx self - delay_len - 1) mod num_delay_step self;
               res = getitem (data self) delay_idx
           in case indices of None \<Rightarrow> Inr res | Some ix \<Rightarrow> ix res)"

definition LengthDelay_update :: "LengthDelay \<Rightarrow> tensor \<Rightarrow> error + LengthDelay" where
  "LengthDelay_update self v =
     (if tshape v \<noteq> shape self then Inl ValueError_value_shape
      else case setitem (shape self) (data self) (idx self) v of
             Inl e \<Rightarrow> Inl e
           | Inr d \<Rightarrow>
               Inr (self\<lparr>data := d, idx := (idx self + 1) mod num_delay_step self\<rparr>))"

subsection \<open>\<^verbatim>\<open>TimeDelay\<close>\<close>

datatype before_type = FUNC_BEFORE | DATA_BEFORE

definition INTERP_LINEAR :: string where
  "INTERP_LINEAR = ''linear_interp''"

definition INTERP_ROUND :: string where
  "INTERP_ROUND = ''round''"

record TimeDelay = AbstractDelay +
  t0 :: rat
  dt :: rat
  delay_len :: rat
  interp_method :: string
  current_time :: rat
  before_kind :: before_type                 \<comment> \<open>the attribute \<^verbatim>\<open>_before_type\<close>\<close>
  before_t0 :: "rat \<Rightarrow> tensor"               \<comment> \<open>the user's function, read only under \<open>FUNC_BEFORE\<close>\<close>

datatype before_t0_arg =
    BeforeNone
  | BeforeCallable "rat \<Rightarrow> tensor"
  | BeforeArray tensor                      \<comment> \<open>an array or a number\<close>
  | BeforeUnsupported

text \<open>
  \<^verbatim>\<open>TimeDelay.__init__\<close>. The time step \<open>dt_arg\<close> is the argument \<^verbatim>\<open>dt\<close>, or the global
  setting when the caller gave none.
\<close>

definition TimeDelay_init ::
  "tensor \<Rightarrow> rat \<Rightarrow> before_t0_arg \<Rightarrow> rat \<Rightarrow> rat \<Rightarrow> string \<Rightarrow> error + TimeDelay" where
  "TimeDelay_init delay_target delay_len_arg before t0_arg dt_arg interp =
     (let s = tshape delay_target in
      if delay_len_arg < 0 then Inl ValueError_check_bound
      else if dt_arg = 0 then Inl ZeroDivisionError
      else let n = \<lceil>delay_len_arg / dt_arg\<rceil> + 1 in
      if interp \<notin> set [INTERP_LINEAR, INTERP_ROUND] then Inl UnsupportedError_interp_method
      else if n \<le> 0 then Inl ValueError_bad_dimensions
      else let blank = replicate (nat n) (zeros s) in
      case (case before of
              BeforeNone \<Rightarrow> Inr (DATA_BEFORE, blank)
            | BeforeCallable f \<Rightarrow> Inr (FUNC_BEFORE, blank)
            | BeforeArray a \<Rightarrow>
                (case set_all_but_last s blank a of
                   Inl e \<Rightarrow> Inl e | Inr d \<Rightarrow> Inr (DATA_BEFORE, d))
            | BeforeUnsupported \<Rightarrow> Inl ValueError_before_t0_unsupported) of
        Inl e \<Rightarrow> Inl e
      | Inr (k, d) \<Rightarrow>
          (case setitem s d (-1) delay_target of
             Inl e \<Rightarrow> Inl e
           | Inr d' \<Rightarrow>
               Inr \<lparr>shape = s, num_delay_step = n, idx = 0, data = d',
                    t0 = t0_arg, dt = dt_arg, delay_len = delay_len_arg,
                    interp_method = interp, current_time = t0_arg,
                    before_kind = k,
                    before_t0 = (case before of BeforeCallable f \<Rightarrow> f
                                 | _ \<Rightarrow> (\<lambda>t. zeros s))\<rparr>))"

text \<open>\<^verbatim>\<open>self._before_t0\<close>: the user's function, broadcast to the sample shape.\<close>

definition TimeDelay_before_t0 :: "TimeDelay \<Rightarrow> rat \<Rightarrow> error + tensor" where
  "TimeDelay_before_t0 self t = broadcast_to (before_t0 self t) (shape self)"

definition true_fn :: "TimeDelay \<Rightarrow> int \<times> rat \<Rightarrow> tensor" where
  "true_fn self div_mod =
     (case div_mod of (req_num_step, extra) \<Rightarrow>
        getitem (data self) (idx self + req_num_step))"

text \<open>
  \<^verbatim>\<open>self._interp_fun\<close>, the element-wise lift of the two-point lookup to samples.
\<close>

definition interp_fun :: "rat \<Rightarrow> rat \<Rightarrow> tensor \<Rightarrow> tensor \<Rightarrow> tensor" where
  "interp_fun x d f0 f1 =
     Tensor (tshape f0) (map2 (interp2 x d) (telems f0) (telems f1))"

definition false_fn :: "TimeDelay \<Rightarrow> int \<times> rat \<Rightarrow> tensor" where
  "false_fn self div_mod =
     (case div_mod of (req_num_step, extra) \<Rightarrow>
        let i0 = (idx self + req_num_step) mod num_delay_step self;
            i1 = (idx self + req_num_step + 1) mod num_delay_step self
        in interp_fun extra (dt self) (getitem (data self) i0) (getitem (data self) i1))"

definition after_t0 :: "TimeDelay \<Rightarrow> rat \<Rightarrow> error + tensor" where
  "after_t0 self prev_time =
     (let diff = delay_len self - (current_time self - prev_time) in
      if interp_method self = INTERP_LINEAR then
        (let req_num_step = trunc (diff / dt self);
             extra = diff - of_int req_num_step * dt self
         in if extra = 0 then Inr (true_fn self (req_num_step, extra))
            else Inr (false_fn self (req_num_step, extra)))
      else if interp_method self = INTERP_ROUND then
        (let req_num_step = round_half_even (diff / dt self)
         in Inr (true_fn self (req_num_step, 0)))
      else Inl UnsupportedError_interp_method)"

text \<open>
  \<^verbatim>\<open>TimeDelay.__call__\<close>; \<open>checking\<close> is the value of \<^verbatim>\<open>check.is_checking()\<close>, and
  \<open>indices\<close> the indexing applied to the result when the argument \<^verbatim>\<open>indices\<close> is given.
\<close>

definition TimeDelay_call ::
  "bool \<Rightarrow> TimeDelay \<Rightarrow> rat \<Rightarrow> (tensor \<Rightarrow> error + tensor) option \<Rightarrow> error + tensor" where
  "TimeDelay_call checking self time indices =
     (if checking \<and> time > current_time self + 1 / 1000000
      then Inl ValueError_request_time_after_current
      else if checking \<and> time < current_time self - delay_len self - dt self
      then Inl ValueError_request_time_out_of_range
      else case (if before_kind self = FUNC_BEFORE
                 then (if time < t0 self then TimeDelay_before_t0 self time
                       else after_t0 self time)
                 else after_t0 self time) of
             Inl e \<Rightarrow> Inl e
           | Inr res \<Rightarrow> (case indices of None \<Rightarrow> Inr res | Some ix \<Rightarrow> ix res))"

definition TimeDelay_update :: "TimeDelay \<Rightarrow> rat \<Rightarrow> tensor \<Rightarrow> error + TimeDelay" where
  "TimeDelay_update self time v =
     (case setitem (shape self) (data self) (idx self) v of
        Inl e \<Rightarrow> Inl e
      | Inr d \<Rightarrow>
          Inr (self\<lparr>data := d, current_time := time,
                    idx := (idx self + 1) mod num_delay_step self\<rparr>))"

subsection \<open>Sequences of updates\<close>

fun LengthDelay_updates :: "LengthDelay \<Rightarrow> tensor list \<Rightarrow> error + LengthDelay" where
  "LengthDelay_updates self [] = Inr self"
| "LengthDelay_updates self (v # vs) =
     (case LengthDelay_update self v of
        Inl e \<Rightarrow> Inl e
      | Inr self' \<Rightarrow> LengthDelay_updates self' vs)"

fun TimeDelay_updates :: "TimeDelay \<Rightarrow> (rat \<times> tensor) list \<Rightarrow> error + TimeDelay" where
  "TimeDelay_updates self [] = Inr self"
| "TimeDelay_updates self (tv # tvs) =
     (case TimeDelay_update self (fst tv) (snd tv) of
        Inl e \<Rightarrow> Inl e
      | Inr self' \<Rightarrow> TimeDelay_updates self' tvs)"

subsection \<open>Well-formed buffers and example buffers\<close>

text \<open>
  The state every constructed buffer is in: at least one slot, as many slots as
  \<^verbatim>\<open>num_delay_step\<close> says, and a write index inside the ring.
\<close>

definition wf_delay :: "'a AbstractDelay_scheme \<Rightarrow> bool" where
  "wf_delay self =
     (0 < num_delay_step self \<and> int (length (data self)) = num_delay_step self \<and>
      0 \<le> idx self \<and> idx self < num_delay_step self)"

text \<open>
  What a sequence of updates does to the ring and the write index; both variants of the
  buffer write \<^verbatim>\<open>data[idx] = value\<close> and advance \<^verbatim>\<open>idx\<close> in the same way.
\<close>

fun ring_writes :: "tensor list \<Rightarrow> int \<Rightarrow> int \<Rightarrow> tensor list \<Rightarrow> tensor list \<times> int" where
  "ring_writes d i c [] = (d, i)"
| "ring_writes d i c (v # vs) = ring_writes (d[nat i := v]) ((i + 1) mod c) c vs"

text \<open>
  A scalar buffer of three slots, as \<^verbatim>\<open>LengthDelay(zeros(()), 2)\<close> and
  \<^verbatim>\<open>TimeDelay(zeros(()), delay_len=2., t0=0., dt=1.)\<close> construct it.
\<close>

definition ld_example :: LengthDelay where
  "ld_example = \<lparr>shape = [], num_delay_step = 3, idx = 0,
                  data = [scalar 0, scalar 0, scalar 0]\<rparr>"

definition td_example :: TimeDelay where
  "td_example = \<lparr>shape = [], num_delay_step = 3, idx = 0,
                  data = [scalar 0, scalar 0, scalar 0],
                  t0 = 0, dt = 1, delay_len = 2, interp_method = INTERP_LINEAR,
                  current_time = 0, before_kind = DATA_BEFORE,
                  before_t0 = (\<lambda>t. zeros [])\<rparr>"

text \<open>
  Buffers of three slots for samples of shape \<open>(3,)\<close>, as \<^verbatim>\<open>LengthDelay(zeros(3), 2)\<close> and
  \<^verbatim>\<open>TimeDelay(zeros(3), delay_len=2., t0=0., dt=1.)\<close> construct them.
\<close>

definition ld_vec_example :: LengthDelay where
  "ld_vec_example = \<lparr>shape = [3], num_delay_step = 3, idx = 0,
                      data = [zeros [3], zeros [3], zeros [3]]\<rparr>"

definition td_vec_example :: TimeDelay where
  "td_vec_example = \<lparr>shape = [3], num_delay_step = 3, idx = 0,
                      data = [zeros [3], zeros [3], zeros [3]],
                      t0 = 0, dt = 1, delay_len = 2, interp_method = INTERP_LINEAR,
                      current_time = 0, before_kind = DATA_BEFORE,
                      before_t0 = (\<lambda>t. zeros [3])\<rparr>"

section \<open>Python values\<close>

text \<open>
  The values that the callers of the modelled functions may pass: numbers, strings, arrays,
  tuples, lists and references to objects. Dictionaries are association lists in insertion
  order.
\<close>

datatype pyval =
    PNone
  | PBool bool
  | PInt int
  | PFloat rat
  | PStr string
  | PArr tensor
  | PTuple "pyval list"
  | PList "pyval list"
  | PObj nat                                \<comment> \<open>a reference to an object, by identity\<close>

type_synonym pydict = "(pyval \<times> pyval) list"

text \<open>\<^verbatim>\<open>isinstance(v, (int, float))\<close>; \<^verbatim>\<open>bool\<close> is a subclass of \<^verbatim>\<open>int\<close>.\<close>

fun num_of :: "pyval \<Rightarrow> rat option" where
  "num_of (PBool b) = Some (if b then 1 else 0)"
| "num_of (PInt i) = Some (of_int i)"
| "num_of (PFloat x) = Some x"
| "num_of _ = None"

text \<open>
  Iterating a value, as a \<^verbatim>\<open>for\<close> loop or a tuple assignment does: a string yields its
  characters, a tuple or list its elements, an array its slots; any other value is not
  iterable.
\<close>

fun py_iter :: "pyval \<Rightarrow> error + pyval list" where
  "py_iter (PStr s) = Inr (map (\<lambda>c. PStr [c]) s)"
| "py_iter (PTuple xs) = Inr xs"
| "py_iter (PList xs) = Inr xs"
| "py_iter (PArr a) =
     (if tshape a = [] then Inl TypeError_not_iterable else Inr (map PArr (unstack a)))"
| "py_iter _ = Inl TypeError_not_iterable"

text \<open>The tuple assignment \<^verbatim>\<open>k, v = x\<close>.\<close>

definition unpack2 :: "pyval \<Rightarrow> error + pyval \<times> pyval" where
  "unpack2 x =
     (case py_iter x of
        Inl e \<Rightarrow> Inl e
      | Inr [k, v] \<Rightarrow> Inr (k, v)
      | Inr _ \<Rightarrow> Inl ValueError_unpack)"

text \<open>Only immutable values can be dictionary keys.\<close>

fun hashable :: "pyval \<Rightarrow> bool" where
  "hashable (PList xs) = False"
| "hashable (PArr a) = False"
| "hashable (PTuple xs) = list_all hashable xs"
| "hashable _ = True"

definition dict_set :: "('k \<times> 'v) list \<Rightarrow> 'k \<Rightarrow> 'v \<Rightarrow> ('k \<times> 'v) list" where
  "dict_set d k v =
     (if k \<in> fst ` set d then map (\<lambda>(k', v'). if k' = k then (k', v) else (k', v')) d
      else d @ [(k, v)])"

text \<open>
  Conversion to an array, as the array library does for an operand: a number becomes a
  scalar array, a flat tuple or list of numbers a vector. Strings and other values are
  not numeric.
\<close>

definition as_array :: "pyval \<Rightarrow> tensor option" where
  "as_array v =
     (case v of
        PArr a \<Rightarrow> Some a
      | PTuple xs \<Rightarrow> map_option (Tensor [length xs]) (those (map num_of xs))
      | PList xs \<Rightarrow> map_option (Tensor [length xs]) (those (map num_of xs))
      | _ \<Rightarrow> map_option scalar (num_of v))"

text \<open>\<^verbatim>\<open>ones(num) * v\<close> and the row assignment \<^verbatim>\<open>mat[i] = v\<close>, for a row of \<open>num\<close> elements.\<close>

definition ones_times :: "nat \<Rightarrow> pyval \<Rightarrow> error + tensor" where
  "ones_times num v =
     (case as_array v of
        None \<Rightarrow> Inl TypeError_not_numeric
      | Some a \<Rightarrow>
          (if length (tshape a) \<le> 1 then broadcast_to a [num]
           else case broadcast_to (Tensor [num] (replicate num 1)) (tshape a) of
                  Inl e \<Rightarrow> Inl e
                | Inr one \<Rightarrow> Inr (Tensor (tshape a) (map2 (*) (telems one) (telems a)))))"

text \<open>\<^verbatim>\<open>size(v)\<close> of the array library: the number of elements; 1 for a number or a string.\<close>

definition py_size :: "pyval \<Rightarrow> nat" where
  "py_size v =
     (case v of
        PArr a \<Rightarrow> prod_list (tshape a)
      | PTuple xs \<Rightarrow> length xs
      | PList xs \<Rightarrow> length xs
      | _ \<Rightarrow> 1)"

section \<open>Neuron groups (\<^verbatim>\<open>npbrain/core/neuron_group.py\<close>)\<close>

text \<open>
  What \<^verbatim>\<open>NeuGroup.__call__\<close> reads of the group: the default variables and parameters
  that the base class collected, and the user's \<^verbatim>\<open>create_func\<close>. What \<^verbatim>\<open>create_func\<close>
  returns under \<^verbatim>\<open>'step_funcs'\<close> is a callable, a sequence of callables, or something else;
  callables are named by numbers.
\<close>

datatype step_funcs = StepCallable nat | StepSequence "nat list" | StepOther

datatype update_func = UserStep nat | MonitorUpdate

record NeuGroup =
  variables :: pydict
  parameters :: pydict
  create_func :: "pydict \<Rightarrow> error + step_funcs"

text \<open>The attributes that the call sets.\<close>

record NeuGroup_called =
  num :: int
  geometry :: "rat \<times> rat"
  var2index :: "(pyval \<times> nat) list option"
  state :: "(pyval \<times> tensor) list"
  P :: "(pyval \<times> pyval) list"
  update_funcs :: "update_func list"
  mon_keys :: "pyval list"                   \<comment> \<open>the keys of \<^verbatim>\<open>self.mon\<close>, each a \<open>1 \<times> 1\<close> zero array\<close>

text \<open>The geometry: a number gives one row; a tuple or list one or two dimensions.\<close>

definition format_geometry :: "pyval \<Rightarrow> error + rat \<times> rat" where
  "format_geometry g =
     (case num_of g of
        Some x \<Rightarrow> Inr (1, of_int (trunc x))
      | None \<Rightarrow>
         (case g of
            PTuple xs \<Rightarrow>
              (case map num_of xs of
                 [Some w] \<Rightarrow> Inr (1, w)
               | [Some h, Some w] \<Rightarrow> Inr (h, w)
               | [_] \<Rightarrow> Inl TypeError_not_numeric
               | [_, _] \<Rightarrow> Inl TypeError_not_numeric
               | _ \<Rightarrow> Inl ValueError_geometry_dimensions)
          | PList xs \<Rightarrow>
              (case map num_of xs of
                 [Some w] \<Rightarrow> Inr (1, w)
               | [Some h, Some w] \<Rightarrow> Inr (h, w)
               | [_] \<Rightarrow> Inl TypeError_not_numeric
               | [_, _] \<Rightarrow> Inl TypeError_not_numeric
               | _ \<Rightarrow> Inl ValueError_geometry_dimensions)
          | _ \<Rightarrow> Inl ValueError_geometry_type))"

text \<open>
  The loop \<^verbatim>\<open>for k, v in vars_init:\<close>. Iterating a dictionary yields its keys, so each
  key is what the tuple assignment unpacks.
\<close>

fun vars_init_loop :: "pydict \<Rightarrow> pydict \<Rightarrow> pyval list \<Rightarrow> error + pydict" where
  "vars_init_loop defaults vars [] = Inr vars"
| "vars_init_loop defaults vars (key # keys) =
     (case unpack2 key of
        Inl e \<Rightarrow> Inl e
      | Inr (k, v) \<Rightarrow>
          if \<not> hashable k then Inl TypeError_unhashable
          else if k \<notin> fst ` set defaults then Inl KeyError_variable_not_defined
          else vars_init_loop defaults (dict_set vars k v) keys)"

text \<open>The loop \<^verbatim>\<open>for k, v in pars_update:\<close>, over the keys as well.\<close>

fun pars_update_loop :: "int \<Rightarrow> pydict \<Rightarrow> pyval list \<Rightarrow> error + pydict" where
  "pars_update_loop n pars [] = Inr pars"
| "pars_update_loop n pars (key # keys) =
     (case unpack2 key of
        Inl e \<Rightarrow> Inl e
      | Inr (k, v) \<Rightarrow>
          if py_size v \<noteq> 1 \<and> int (py_size v) \<noteq> n then Inl ValueError_parameter_size
          else if \<not> hashable k then Inl TypeError_unhashable
          else pars_update_loop n (dict_set pars k v) keys)"

fun build_state :: "nat \<Rightarrow> pydict \<Rightarrow> error + (pyval \<times> tensor) list" where
  "build_state n [] = Inr []"
| "build_state n ((k, v) # kvs) =
     (case ones_times n v of
        Inl e \<Rightarrow> Inl e
      | Inr row \<Rightarrow>
          (case build_state n kvs of
             Inl e \<Rightarrow> Inl e
           | Inr rest \<Rightarrow> Inr ((k, row) # rest)))"

text \<open>
  The parameters under the numba backend: arrays of \<open>num\<close> elements when some parameter
  has more than one element, plain numbers otherwise.
\<close>

fun numba_parameters :: "nat \<Rightarrow> pydict \<Rightarrow> error + pydict" where
  "numba_parameters n [] = Inr []"
| "numba_parameters n ((k, v) # kvs) =
     (case ones_times n v of
        Inl e \<Rightarrow> Inl e
      | Inr row \<Rightarrow>
          (case numba_parameters n kvs of
             Inl e \<Rightarrow> Inl e
           | Inr rest \<Rightarrow> Inr ((k, PArr row) # rest)))"

definition is_str :: "pyval \<Rightarrow> bool" where
  "is_str v = (case v of PStr s \<Rightarrow> True | _ \<Rightarrow> False)"

text \<open>
  \<^verbatim>\<open>NeuGroup.__call__\<close>. \<open>numba_bk\<close> is the value of \<^verbatim>\<open>profile.is_numba_bk()\<close>; the arguments
  \<^verbatim>\<open>vars_init\<close> and \<^verbatim>\<open>pars_update\<close> are \<open>None\<close> when they are not dictionaries, and
  \<^verbatim>\<open>monitors\<close> is \<open>None\<close> or the list of monitored keys.
\<close>

definition NeuGroup_call ::
  "bool \<Rightarrow> NeuGroup \<Rightarrow> pyval \<Rightarrow> pyval list option \<Rightarrow> pydict option \<Rightarrow> pydict option
     \<Rightarrow> error + NeuGroup_called" where
  "NeuGroup_call numba_bk self geometry_arg monitors vars_init pars_update =
     (case format_geometry geometry_arg of
        Inl e \<Rightarrow> Inl e
      | Inr (height, width) \<Rightarrow>
     let n = trunc (height * width) in
     case vars_init of
        None \<Rightarrow> Inl AssertionError_vars_init
      | Some vi \<Rightarrow>
     case vars_init_loop (variables self) (variables self) (map fst vi) of
        Inl e \<Rightarrow> Inl e
      | Inr vars \<Rightarrow>
     if n < 0 then Inl ValueError_bad_dimensions else
     case build_state (nat n) vars of
        Inl e \<Rightarrow> Inl e
      | Inr st \<Rightarrow>
     case pars_update of
        None \<Rightarrow> Inl AssertionError_pars_update
      | Some pu \<Rightarrow>
     case pars_update_loop n (parameters self) (map fst pu) of
        Inl e \<Rightarrow> Inl e
      | Inr pars \<Rightarrow>
     case (if numba_bk then
             (if pars = [] then Inl ValueError_max_of_empty
              else if list_ex (\<lambda>kv. 1 < py_size (snd kv)) pars
                   then numba_parameters (nat n) pars
              else if list_all (\<lambda>kv. num_of (snd kv) \<noteq> None) pars then Inr pars
              else Inl TypeError_not_numeric)
           else Inr pars) of
        Inl e \<Rightarrow> Inl e
      | Inr p \<Rightarrow>
     if \<not> list_all (\<lambda>kv. is_str (fst kv)) pars then Inl TypeError_keywords
     else case create_func self pars of
        Inl e \<Rightarrow> Inl e
      | Inr StepOther \<Rightarrow> Inl ValueError_step_funcs
      | Inr sf \<Rightarrow>
          Inr \<lparr>num = n, geometry = (height, width),
               var2index = (if numba_bk then Some (zip (map fst vars) [0 ..< length vars])
                            else None),
               state = st, P = p,
               update_funcs =
                 (case sf of StepCallable f \<Rightarrow> [UserStep f]
                           | StepSequence fs \<Rightarrow> map UserStep fs
                           | StepOther \<Rightarrow> [])
                 @ (case monitors of None \<Rightarrow> [] | Some ks \<Rightarrow> [MonitorUpdate]),
               mon_keys = (case monitors of None \<Rightarrow> [] | Some ks \<Rightarrow> remdups ks)\<rparr>)"

text \<open>
  A group with one variable \<^verbatim>\<open>V\<close> and one parameter \<^verbatim>\<open>tau\<close>, whose \<^verbatim>\<open>create_func\<close> returns
  one step function.
\<close>

definition neu_example :: NeuGroup where
  "neu_example = \<lparr>variables = [(PStr ''V'', PFloat 0)],
                   parameters = [(PStr ''tau'', PFloat 10)],
                   create_func = (\<lambda>pars. Inr (StepCallable 0))\<rparr>"

section \<open>The network (\<^verbatim>\<open>brainpy/core_system/network.py\<close>)\<close>

subsection \<open>Participants and the code outside the network\<close>

text \<open>
  A participant object, as far as \<^verbatim>\<open>Network\<close> reads and writes it: its name, the results
  of the three \<^verbatim>\<open>isinstance\<close> tests, its monitor dictionary, and of its runner the
  dictionary \<^verbatim>\<open>_inputs\<close> (key to value and operation) and the attributes that hold the
  current input values. Objects live in a heap and are referred to by identity, since the
  network's lists, its registry and its attributes share them.
\<close>

record participant =
  name :: string
  is_NeuGroup :: bool
  is_SynConn :: bool
  is_BrainEnsemble :: bool
  mon :: "(string \<times> tensor) list"
  runner_inputs :: "(string \<times> pyval \<times> pyval) list"
  runner_attrs :: "(string \<times> pyval) list"

type_synonym heap = "nat \<Rightarrow> participant"

text \<open>One formatted input \<^verbatim>\<open>(key, val, ops, data_type)\<close>, and the inputs of each target.\<close>

type_synonym formatted_input = "string \<times> pyval \<times> pyval \<times> string"

type_synonym formatted_inputs = "(string \<times> formatted_input list) list"

text \<open>The compiled step function: its source text and the scope it was compiled in.\<close>

record step_function =
  func_code :: string
  code_scopes :: "(string \<times> nat) list"

text \<open>
  What the network calls but does not define: the global time step \<^verbatim>\<open>profile.get_dt()\<close>,
  the keys of \<^verbatim>\<open>INPUT_OPERATIONS\<close>, every participant's \<^verbatim>\<open>_build\<close> (which may change the
  participants and returns lines of code, or raises), whether the assembled code compiles,
  and what a call of the compiled step function does to the participants. These are
  parameters of the model. An exception raised by this code is \<open>External_error\<close>.
\<close>

record externals =
  get_dt :: rat
  INPUT_OPERATIONS :: "string list"
  obj_build :: "nat \<Rightarrow> formatted_input list option \<Rightarrow> int \<Rightarrow> heap \<Rightarrow> heap \<times> (nat + string list)"
  compiles :: "string \<Rightarrow> bool"
  step_call :: "step_function \<Rightarrow> rat \<Rightarrow> int \<Rightarrow> rat \<Rightarrow> heap \<Rightarrow> heap \<times> nat option"

subsection \<open>The network and its registry\<close>

text \<open>
  \<open>attrs\<close> are the attributes that \<^verbatim>\<open>setattr(self, name, obj)\<close> creates, the most recent
  first. The names given to participants are taken to differ from the attributes and
  methods that \<^verbatim>\<open>Network\<close> itself defines, which \<^verbatim>\<open>setattr\<close> would otherwise overwrite.
\<close>

record Network =
  all_neu_groups :: "nat list"
  all_syn_conns :: "nat list"
  all_objects :: "nat list"
  objsets :: "(string \<times> nat) list"
  attrs :: "(string \<times> nat) list"
  t_start :: rat
  t_end :: rat
  t_duration :: rat
  mode :: string
  step_func :: "step_function option"

definition add_obj :: "heap \<Rightarrow> Network \<Rightarrow> nat \<Rightarrow> string option \<Rightarrow> Network \<times> error option" where
  "add_obj h self obj name_arg =
     (let self1 = self\<lparr>all_objects := all_objects self @ [obj]\<rparr> in
      case (if is_NeuGroup (h obj)
            then Inr (self1\<lparr>all_neu_groups := all_neu_groups self1 @ [obj]\<rparr>)
            else if is_SynConn (h obj)
            then Inr (self1\<lparr>all_syn_conns := all_syn_conns self1 @ [obj]\<rparr>)
            else Inl ValueError_unknown_object_type) of
        Inl e \<Rightarrow> (self1, Some e)
      | Inr self2 \<Rightarrow>
          (let nm = (case name_arg of None \<Rightarrow> name (h obj) | Some n \<Rightarrow> n) in
           if nm \<in> fst ` set (objsets self2) then (self2, Some KeyError_name_used)
           else (self2\<lparr>objsets := objsets self2 @ [(nm, obj)],
                        attrs := (if name (h obj) \<noteq> nm then [(name (h obj), obj)] else [])
                                 @ (nm, obj) # attrs self2\<rparr>, None)))"

fun add_args :: "heap \<Rightarrow> Network \<Rightarrow> nat list \<Rightarrow> Network \<times> error option" where
  "add_args h self [] = (self, None)"
| "add_args h self (obj # objs) =
     (case add_obj h self obj None of
        (self', Some e) \<Rightarrow> (self', Some e)
      | (self', None) \<Rightarrow> add_args h self' objs)"

fun add_kwargs :: "heap \<Rightarrow> Network \<Rightarrow> (string \<times> nat) list \<Rightarrow> Network \<times> error option" where
  "add_kwargs h self [] = (self, None)"
| "add_kwargs h self (kw # kws) =
     (case add_obj h self (snd kw) (Some (fst kw)) of
        (self', Some e) \<Rightarrow> (self', Some e)
      | (self', None) \<Rightarrow> add_kwargs h self' kws)"

text \<open>\<^verbatim>\<open>Network.add(*args, **kwargs)\<close>: the network as the call leaves it, and what it raised.\<close>

definition add :: "heap \<Rightarrow> Network \<Rightarrow> nat list \<Rightarrow> (string \<times> nat) list \<Rightarrow> Network \<times> error option" where
  "add h self args kwargs =
     (case add_args h self args of
        (self', Some e) \<Rightarrow> (self', Some e)
      | (self', None) \<Rightarrow> add_kwargs h self' kwargs)"

definition Network_init :: "heap \<Rightarrow> nat list \<Rightarrow> string \<Rightarrow> (string \<times> nat) list \<Rightarrow> error + Network" where
  "Network_init h args mode_arg kwargs =
     (case add h \<lparr>all_neu_groups = [], all_syn_conns = [], all_objects = [], objsets = [],
                  attrs = [], t_start = 0, t_end = 0, t_duration = 0, mode = [],
                  step_func = None\<rparr> args kwargs of
        (self, Some e) \<Rightarrow> Inl e
      | (self, None) \<Rightarrow>
          if mode_arg \<notin> set [''once'', ''repeat''] then Inl AssertionError_mode
          else Inr (self\<lparr>mode := mode_arg, step_func := None\<rparr>))"

subsection \<open>The input formatter\<close>

definition is_seq :: "pyval \<Rightarrow> bool" where
  "is_seq v = (case v of PTuple xs \<Rightarrow> True | PList xs \<Rightarrow> True | _ \<Rightarrow> False)"

definition seq_items :: "pyval \<Rightarrow> pyval list" where
  "seq_items v = (case v of PTuple xs \<Rightarrow> xs | PList xs \<Rightarrow> xs | _ \<Rightarrow> [])"

text \<open>
  The first loop over the specs: each has three or four fields, and a fourth field is a
  key of \<^verbatim>\<open>INPUT_OPERATIONS\<close>. A spec whose length cannot be taken raises a type error.
\<close>

definition check_spec :: "string list \<Rightarrow> pyval \<Rightarrow> error option" where
  "check_spec ops inp =
     (case py_iter inp of
        Inl e \<Rightarrow> Some e
      | Inr flds \<Rightarrow>
          if \<not> (3 \<le> length flds \<and> length flds \<le> 4) then Some ModelUseError_spec_fields
          else if length flds = 4 then
            (if \<not> hashable (flds ! 3) then Some TypeError_unhashable
             else if flds ! 3 \<in> PStr ` set ops then None
             else Some ModelUseError_input_operation)
          else None)"

fun check_specs :: "string list \<Rightarrow> pyval list \<Rightarrow> error option" where
  "check_specs ops [] = None"
| "check_specs ops (inp # inps) =
     (case check_spec ops inp of Some e \<Rightarrow> Some e | None \<Rightarrow> check_specs ops inps)"

text \<open>The body of the second loop, for a spec that passed the first.\<close>

definition format_spec ::
  "heap \<Rightarrow> Network \<Rightarrow> int \<Rightarrow> pyval \<Rightarrow> error + string \<times> formatted_input" where
  "format_spec h self run_length inp =
     (let flds = (case py_iter inp of Inl e \<Rightarrow> [] | Inr fs \<Rightarrow> fs) in
      case (case flds ! 0 of
              PStr s \<Rightarrow> (case map_of (attrs self) s of
                           None \<Rightarrow> Inl AttributeError_network
                         | Some obj \<Rightarrow> Inr (name (h obj)))
            | PObj obj \<Rightarrow> if is_BrainEnsemble (h obj) then Inr (name (h obj))
                          else Inl KeyError_unknown_input_target
            | _ \<Rightarrow> Inl KeyError_unknown_input_target) of
        Inl e \<Rightarrow> Inl e
      | Inr target \<Rightarrow>
     case flds ! 1 of
        PStr key \<Rightarrow>
          (case (if num_of (flds ! 2) \<noteq> None then Inr ''fix''
                 else case flds ! 2 of
                        PArr a \<Rightarrow> (case tshape a of
                                     [] \<Rightarrow> Inl IndexError_shape
                                   | n # s \<Rightarrow> if int n = run_length then Inr ''iter''
                                              else Inr ''fix'')
                      | _ \<Rightarrow> Inl ModelUseError_input_value) of
             Inl e \<Rightarrow> Inl e
           | Inr data_type \<Rightarrow>
               Inr (target, key, flds ! 2,
                    (if length flds = 4 then flds ! 3 else PStr ''+''), data_type))
      | _ \<Rightarrow> Inl ModelUseError_input_key)"

definition append_input ::
  "formatted_inputs \<Rightarrow> string \<Rightarrow> formatted_input \<Rightarrow> formatted_inputs" where
  "append_input fi target x =
     (if target \<in> fst ` set fi
      then map (\<lambda>(t, xs). if t = target then (t, xs @ [x]) else (t, xs)) fi
      else fi @ [(target, [x])])"

fun format_specs ::
  "heap \<Rightarrow> Network \<Rightarrow> int \<Rightarrow> pyval list \<Rightarrow> formatted_inputs \<Rightarrow> error + formatted_inputs" where
  "format_specs h self run_length [] fi = Inr fi"
| "format_specs h self run_length (inp # inps) fi =
     (case format_spec h self run_length inp of
        Inl e \<Rightarrow> Inl e
      | Inr (target, x) \<Rightarrow> format_specs h self run_length inps (append_input fi target x))"

text \<open>
  \<^verbatim>\<open>Network._format_inputs\<close>. A non-empty \<^verbatim>\<open>inputs\<close> whose first element is neither a
  list nor a tuple is wrapped into a one-element list when that element is a
  \<^verbatim>\<open>BrainEnsemble\<close>, and rejected otherwise.
\<close>

definition format_inputs ::
  "heap \<Rightarrow> string list \<Rightarrow> Network \<Rightarrow> pyval \<Rightarrow> int \<Rightarrow> error + formatted_inputs" where
  "format_inputs h ops self inputs run_length =
     (if \<not> is_seq inputs then Inl ModelUseError_inputs_type
      else case (if seq_items inputs \<noteq> [] \<and> \<not> is_seq (hd (seq_items inputs)) then
                   (case hd (seq_items inputs) of
                      PObj obj \<Rightarrow> if is_BrainEnsemble (h obj) then Inr [inputs]
                                  else Inl ModelUseError_unknown_input_structure
                    | _ \<Rightarrow> Inl ModelUseError_unknown_input_structure)
                 else Inr (seq_items inputs)) of
             Inl e \<Rightarrow> Inl e
           | Inr specs \<Rightarrow>
               (case check_specs ops specs of
                  Some e \<Rightarrow> Inl e
                | None \<Rightarrow> format_specs h self run_length specs []))"

subsection \<open>An example network\<close>

text \<open>
  A heap with a neuron group \<^verbatim>\<open>neu\<close> (object 0) and a synapse connection \<^verbatim>\<open>syn\<close>
  (object 1); every other object is of a class the network does not know. The network is
  \<^verbatim>\<open>Network(neu, syn, mode='repeat')\<close>.
\<close>

definition heap_example :: heap where
  "heap_example = (\<lambda>i.
     if i = 0 then \<lparr>name = ''neu'', is_NeuGroup = True, is_SynConn = False,
                     is_BrainEnsemble = True, mon = [], runner_inputs = [],
                     runner_attrs = []\<rparr>
     else if i = 1 then \<lparr>name = ''syn'', is_NeuGroup = False, is_SynConn = True,
                          is_BrainEnsemble = True, mon = [], runner_inputs = [],
                          runner_attrs = []\<rparr>
     else \<lparr>name = ''other'', is_NeuGroup = False, is_SynConn = False,
            is_BrainEnsemble = False, mon = [], runner_inputs = [], runner_attrs = []\<rparr>)"

definition net_example :: Network where
  "net_example = \<lparr>all_neu_groups = [0], all_syn_conns = [1], all_objects = [0, 1],
                   objsets = [(''neu'', 0), (''syn'', 1)],
                   attrs = [(''syn'', 1), (''neu'', 0)],
                   t_start = 0, t_end = 0, t_duration = 0, mode = ''repeat'',
                   step_func = None\<rparr>"

subsection \<open>Building the step function\<close>

fun join :: "string \<Rightarrow> string list \<Rightarrow> string" where
  "join sep [] = []"
| "join sep [x] = x"
| "join sep (x # y # ys) = x @ sep @ join sep (y # ys)"

definition step_func_header :: string where
  "step_func_header =
     ''# network step function'' @ [CHR 0x0A] @ ''def step_func(_t_, _i_, _dt_):''"

text \<open>
  The loop of \<^verbatim>\<open>Network.build\<close> over the participants, in registration order: each one is
  entered into the scope under its name and contributes its lines.
\<close>

fun build_objs ::
  "externals \<Rightarrow> formatted_inputs \<Rightarrow> int \<Rightarrow> nat list \<Rightarrow> heap \<Rightarrow> (string \<times> nat) list \<Rightarrow> string list
     \<Rightarrow> heap \<times> (error + (string \<times> nat) list \<times> string list)" where
  "build_objs ext fi run_length [] h scopes code_lines = (h, Inr (scopes, code_lines))"
| "build_objs ext fi run_length (obj # objs) h scopes code_lines =
     (case obj_build ext obj (map_of fi (name (h obj))) run_length h of
        (h', Inl c) \<Rightarrow> (h', Inl (External_error c))
      | (h', Inr lines_of_call) \<Rightarrow>
          build_objs ext fi run_length objs h' (dict_set scopes (name (h obj)) obj)
            (code_lines @ lines_of_call))"

definition build ::
  "externals \<Rightarrow> heap \<Rightarrow> Network \<Rightarrow> int \<Rightarrow> pyval \<Rightarrow> heap \<times> (error + step_function)" where
  "build ext h self run_length inputs =
     (case format_inputs h (INPUT_OPERATIONS ext) self inputs run_length of
        Inl e \<Rightarrow> (h, Inl e)
      | Inr fi \<Rightarrow>
          (case build_objs ext fi run_length (all_objects self) h [] [step_func_header] of
             (h', Inl e) \<Rightarrow> (h', Inl e)
           | (h', Inr (scopes, code_lines)) \<Rightarrow>
               (let code = join ([CHR 0x0A] @ ''  '') code_lines in
                if compiles ext code
                then (h', Inr \<lparr>func_code = code, code_scopes = scopes\<rparr>)
                else (h', Inl SyntaxError_step_function))))"

subsection \<open>Running\<close>

text \<open>
  The argument \<^verbatim>\<open>duration\<close>: a number is the end time, a pair of numbers the start and the
  end.
\<close>

definition parse_duration :: "pyval \<Rightarrow> error + rat \<times> rat" where
  "parse_duration d =
     (case num_of d of
        Some x \<Rightarrow> Inr (0, x)
      | None \<Rightarrow>
          if is_seq d then
            (if length (seq_items d) \<noteq> 2 then Inl AssertionError_duration
             else case map num_of (seq_items d) of
                    [Some s, Some e] \<Rightarrow> Inr (s, e)
                  | _ \<Rightarrow> Inl TypeError_not_numeric)
          else Inl ValueError_unknown_duration_type)"

text \<open>\<^verbatim>\<open>arange(start, stop, step)\<close> of the array library.\<close>

definition arange :: "rat \<Rightarrow> rat \<Rightarrow> rat \<Rightarrow> error + rat list" where
  "arange start stop step =
     (if step = 0 then Inl Error_arange_zero_step
      else Inr (map (\<lambda>i. start + of_nat i * step) [0 ..< nat \<lceil>(stop - start) / step\<rceil>]))"

text \<open>\<^verbatim>\<open>shape(v)\<close> of the array library; \<^verbatim>\<open>()\<close> for a number or a string.\<close>

definition py_shape :: "pyval \<Rightarrow> nat list" where
  "py_shape v = (case as_array v of Some a \<Rightarrow> tshape a | None \<Rightarrow> [])"

definition inp_attr :: "string \<Rightarrow> string" where
  "inp_attr key = map (\<lambda>c. if c = CHR ''.'' then CHR ''_'' else c) key @ ''_inp''"

text \<open>
  In repeat mode, the new value of one input: shape and operation agree with what the
  participant was built with, the value replaces the runner's attribute (a number) or is
  copied into it (an array), and the key is ticked off.
\<close>

definition reset_input ::
  "participant \<Rightarrow> string list \<Rightarrow> formatted_input \<Rightarrow> participant \<times> (error + string list)" where
  "reset_input obj all_keys inp =
     (case inp of (key, val, ops, data_type) \<Rightarrow>
      case map_of (runner_inputs obj) key of
        None \<Rightarrow> (obj, Inl KeyError_runner_inputs)
      | Some (old_val, old_ops) \<Rightarrow>
          if py_shape old_val \<noteq> py_shape val
          then (obj, Inl ModelUseError_input_shape_mismatch)
          else if old_ops \<noteq> ops then (obj, Inl ModelUseError_input_operation_mismatch)
          else case (if num_of val \<noteq> None
                     then Inr (obj\<lparr>runner_attrs := dict_set (runner_attrs obj) (inp_attr key) val\<rparr>)
                     else case map_of (runner_attrs obj) (inp_attr key) of
                            None \<Rightarrow> Inl AttributeError_runner
                          | Some (PArr a) \<Rightarrow>
                              (case as_array val of
                                 None \<Rightarrow> Inl TypeError_not_numeric
                               | Some v \<Rightarrow>
                                   (case broadcast_to v (tshape a) of
                                      Inl e \<Rightarrow> Inl e
                                    | Inr w \<Rightarrow>
                                        Inr (obj\<lparr>runner_attrs :=
                                               dict_set (runner_attrs obj) (inp_attr key) (PArr w)\<rparr>)))
                          | Some _ \<Rightarrow> Inl TypeError_item_assignment) of
                 Inl e \<Rightarrow> (obj, Inl e)
               | Inr obj' \<Rightarrow>
                   if key \<in> set all_keys then (obj', Inr (remove1 key all_keys))
                   else (obj', Inl ValueError_list_remove))"

fun reset_obj_inputs ::
  "participant \<Rightarrow> string list \<Rightarrow> formatted_input list \<Rightarrow> participant \<times> error option" where
  "reset_obj_inputs obj all_keys [] =
     (obj, if all_keys \<noteq> [] then Some ModelUseError_inputs_not_provided else None)"
| "reset_obj_inputs obj all_keys (inp # inps) =
     (case reset_input obj all_keys inp of
        (obj', Inl e) \<Rightarrow> (obj', Some e)
      | (obj', Inr keys') \<Rightarrow> reset_obj_inputs obj' keys' inps)"

fun reset_inputs :: "Network \<Rightarrow> heap \<Rightarrow> formatted_inputs \<Rightarrow> heap \<times> error option" where
  "reset_inputs self h [] = (h, None)"
| "reset_inputs self h ((obj_name, inps) # rest) =
     (case map_of (attrs self) obj_name of
        None \<Rightarrow> (h, Some AttributeError_network)
      | Some obj \<Rightarrow>
          (case reset_obj_inputs (h obj) (map fst (runner_inputs (h obj))) inps of
             (p, Some e) \<Rightarrow> (h(obj := p), Some e)
           | (p, None) \<Rightarrow> reset_inputs self (h(obj := p)) rest))"

text \<open>\<^verbatim>\<open>val[:] = 0.\<close> for every monitor of every participant.\<close>

fun reset_monitors :: "nat list \<Rightarrow> heap \<Rightarrow> heap" where
  "reset_monitors [] h = h"
| "reset_monitors (obj # objs) h =
     reset_monitors objs
       (h(obj := (h obj)\<lparr>mon := map (\<lambda>(k, a). (k, zeros (tshape a))) (mon (h obj))\<rparr>))"

text \<open>
  The loop over the time steps. \<open>steps\<close> are the pairs \<^verbatim>\<open>(ts[run_idx], run_idx)\<close> still to
  run; \<open>gap\<close> is \<^verbatim>\<open>report_gap\<close> when the progress is reported, whose remainder is then taken
  after every step. The last component of the result lists the time stamps that were
  passed to the step function; it is there for the statements about the run and is no
  state of the program.
\<close>

fun run_steps ::
  "externals \<Rightarrow> step_function \<Rightarrow> int option \<Rightarrow> (rat \<times> int) list \<Rightarrow> heap \<Rightarrow> rat list
     \<Rightarrow> heap \<times> error option \<times> rat list" where
  "run_steps ext f gap [] h used = (h, None, used)"
| "run_steps ext f gap ((t, i) # steps) h used =
     (case step_call ext f t i (get_dt ext) h of
        (h', Some c) \<Rightarrow> (h', Some (External_error c), used @ [t])
      | (h', None) \<Rightarrow>
          if gap = Some 0 then (h', Some ZeroDivisionError, used @ [t])
          else run_steps ext f gap steps h' (used @ [t]))"

text \<open>\<^verbatim>\<open>obj.mon['ts'] = self.ts\<close> for every participant.\<close>

fun set_ts :: "nat list \<Rightarrow> rat list \<Rightarrow> heap \<Rightarrow> heap" where
  "set_ts [] ts h = h"
| "set_ts (obj # objs) ts h =
     set_ts objs ts
       (h(obj := (h obj)\<lparr>mon := dict_set (mon (h obj)) ''ts'' (Tensor [length ts] ts)\<rparr>))"

text \<open>
  The first part of \<^verbatim>\<open>Network.run\<close>, ``1. build'': outside repeat mode, or when no step
  function is stored, the step function is built and the duration recorded; otherwise
  the duration is compared with the recorded one, the inputs are reset and the monitors
  zeroed.
\<close>

definition prepare ::
  "externals \<Rightarrow> heap \<Rightarrow> Network \<Rightarrow> rat \<Rightarrow> rat \<Rightarrow> int \<Rightarrow> pyval \<Rightarrow> heap \<times> Network \<times> error option" where
  "prepare ext h self start end run_length inputs =
     (if mode self \<noteq> ''repeat'' \<or> step_func self = None then
        (case build ext h self run_length inputs of
           (h', Inl e) \<Rightarrow> (h', self, Some e)
         | (h', Inr f) \<Rightarrow>
             (h', self\<lparr>step_func := Some f, t_duration := end - start\<rparr>, None))
      else if t_duration self \<noteq> end - start
      then (h, self, Some ModelUseError_duration_mismatch)
      else case format_inputs h (INPUT_OPERATIONS ext) self inputs run_length of
             Inl e \<Rightarrow> (h, self, Some e)
           | Inr fi \<Rightarrow>
               (case reset_inputs self h fi of
                  (h', Some e) \<Rightarrow> (h', self, Some e)
                | (h', None) \<Rightarrow> (reset_monitors (all_objects self) h', self, None)))"

text \<open>
  The second part, ``2. run'': with a progress report the first step is run on its own
  and the others follow, each followed by the remainder of the step count by
  \<^verbatim>\<open>report_gap\<close>; without, all steps are run by one loop.
\<close>

definition run_loop ::
  "externals \<Rightarrow> step_function \<Rightarrow> heap \<Rightarrow> rat list \<Rightarrow> bool \<Rightarrow> rat \<Rightarrow> heap \<times> error option \<times> rat list" where
  "run_loop ext f h ts report report_percent =
     (if report then
        (case ts of
           [] \<Rightarrow> (h, Some IndexError_ts, [])
         | t # rest \<Rightarrow>
             (case step_call ext f t 0 (get_dt ext) h of
                (h', Some c) \<Rightarrow> (h', Some (External_error c), [t])
              | (h', None) \<Rightarrow>
                  run_steps ext f (Some (trunc (of_nat (length ts) * report_percent)))
                    (zip rest (map int [1 ..< length ts])) h' [t]))
      else run_steps ext f None (zip ts (map int [0 ..< length ts])) h [])"

text \<open>
  \<^verbatim>\<open>Network.run\<close>. The result is the heap and the network as the call leaves them, what
  the call raised, and the time stamps that the step function was called with.
\<close>

definition run ::
  "externals \<Rightarrow> heap \<Rightarrow> Network \<Rightarrow> pyval \<Rightarrow> pyval \<Rightarrow> bool \<Rightarrow> rat
     \<Rightarrow> heap \<times> Network \<times> error option \<times> rat list" where
  "run ext h self duration inputs report report_percent =
     (case parse_duration duration of
        Inl e \<Rightarrow> (h, self, Some e, [])
      | Inr (start, end) \<Rightarrow>
     let self1 = self\<lparr>t_start := start, t_end := end\<rparr> in
     case arange start end (get_dt ext) of
        Inl e \<Rightarrow> (h, self1, Some e, [])
      | Inr ts \<Rightarrow>
     case prepare ext h self1 start end (int (length ts)) inputs of
        (h1, self2, Some e) \<Rightarrow> (h1, self2, Some e, [])
      | (h1, self2, None) \<Rightarrow>
     case step_func self2 of
        None \<Rightarrow> (h1, self2, Some TypeError_not_callable, [])
      | Some f \<Rightarrow>
     case run_loop ext f h1 ts report report_percent of
        (h2, Some e, used) \<Rightarrow> (h2, self2, Some e, used)
      | (h2, None, used) \<Rightarrow> (set_ts (all_objects self2) ts h2, self2, None, used))"

text \<open>
  The state after a sequence of \<^verbatim>\<open>run\<close> calls, each given by its arguments, whatever
  they raised.
\<close>

fun runs ::
  "externals \<Rightarrow> heap \<Rightarrow> Network \<Rightarrow> (pyval \<times> pyval \<times> bool \<times> rat) list \<Rightarrow> heap \<times> Network" where
  "runs ext h self [] = (h, self)"
| "runs ext h self ((duration, inputs, report, report_percent) # calls) =
     (case run ext h self duration inputs report report_percent of
        (h', self', err, used) \<Rightarrow> runs ext h' self' calls)"

text \<open>
  The code outside the example network: time step 1, participants that contribute no
  code, every assembled code compiles, and a step function that changes nothing.
\<close>

definition ext_example :: externals where
  "ext_example = \<lparr>get_dt = 1, INPUT_OPERATIONS = [''+'', ''-''],
                   obj_build = (\<lambda>obj inps run_length h. (h, Inr [])),
                   compiles = (\<lambda>code. True),
                   step_call = (\<lambda>f t i dt h. (h, None))\<rparr>"

section \<open>The integrator runner (\<^verbatim>\<open>brainpy/integrators/runner.py\<close>)\<close>

text \<open>
  Of \<^verbatim>\<open>IntegratorRunner\<close>, what \<^verbatim>\<open>__call__\<close> and \<^verbatim>\<open>_post\<close> read and write: the time step,
  the start time of the next run, whether there are dynamical arguments and their index,
  and the monitor with its time stamps and recorded items. The loop function
  \<^verbatim>\<open>self.step_func\<close> is a parameter: it maps the time stamps to the histories and the
  returns of the function monitors, or raises.
\<close>

record IntegratorRunner =
  runner_dt :: rat                            \<comment> \<open>the attribute \<^verbatim>\<open>dt\<close>\<close>
  start_t :: "rat option"                     \<comment> \<open>the attribute \<^verbatim>\<open>_start_t\<close>\<close>
  has_dyn_args :: bool                        \<comment> \<open>\<^verbatim>\<open>len(self._dyn_args) > 0\<close>\<close>
  dyn_idx :: int                              \<comment> \<open>\<^verbatim>\<open>self.dyn_vars['_idx'][0]\<close>\<close>
  mon_ts :: "rat list"                        \<comment> \<open>\<^verbatim>\<open>self.mon.ts\<close>\<close>
  mon_item_contents :: "(string \<times> tensor) list"

definition post :: "IntegratorRunner \<Rightarrow> rat list \<Rightarrow> (string \<times> tensor) list \<Rightarrow> IntegratorRunner" where
  "post self times' returns =
     (self\<lparr>mon_ts := map (\<lambda>t. t + runner_dt self) times',
            mon_item_contents :=
              fold (\<lambda>(key, v) m. dict_set m key v) returns (mon_item_contents self)\<rparr>)"

definition IntegratorRunner_call ::
  "(rat list \<Rightarrow> nat + (string \<times> tensor) list \<times> (string \<times> tensor) list)
     \<Rightarrow> IntegratorRunner \<Rightarrow> rat \<Rightarrow> rat option \<Rightarrow> IntegratorRunner \<times> error option" where
  "IntegratorRunner_call loop_func self duration start_arg =
     (let self1 = (if has_dyn_args self then self\<lparr>dyn_idx := 0\<rparr> else self);
          start = (case start_arg of
                     Some s \<Rightarrow> s
                   | None \<Rightarrow> (case start_t self1 of None \<Rightarrow> 0 | Some s \<Rightarrow> s));
          end_t = start + duration
      in case arange start end_t (runner_dt self1) of
           Inl e \<Rightarrow> (self1, Some e)
         | Inr times' \<Rightarrow>
             (case loop_func times' of
                Inl c \<Rightarrow> (self1, Some (External_error c))
              | Inr (hists, returns) \<Rightarrow>
                  ((post self1 times' (fold (\<lambda>(key, v) m. dict_set m key v) returns hists))
                     \<lparr>start_t := Some end_t\<rparr>, None)))"

text \<open>A runner with time step 1 that monitors nothing.\<close>

definition runner_example :: IntegratorRunner where
  "runner_example = \<lparr>runner_dt = 1, start_t = None, has_dyn_args = False, dyn_idx = 0,
                      mon_ts = [], mon_item_contents = []\<rparr>"

text \<open>A loop function that records nothing.\<close>

definition loop_example :: "rat list \<Rightarrow> nat + (string \<times> tensor) list \<times> (string \<times> tensor) list" where
  "loop_example ts = Inr ([], [])"

(*DEFS-END*)

section \<open>Properties of the numeric substrate\<close>

lemma those_map_Some: "those (map Some ys) = Some ys"
  by (induction ys) auto

lemma concat_chunks: "length xs = k * n \<Longrightarrow> concat (chunks k n xs) = xs"
  by (induction k arbitrary: xs) auto

lemma length_chunks: "length (chunks k n xs) = k"
  by (induction k arbitrary: xs) auto

lemma chunks_all_length:
  "length xs = k * n \<Longrightarrow> c \<in> set (chunks k n xs) \<Longrightarrow> length c = n"
proof (induction k arbitrary: xs)
  case 0
  then show ?case by simp
next
  case (Suc k)
  have "length (drop n xs) = k * n" using Suc.prems(1) by simp
  then show ?case using Suc.IH [of "drop n xs"] Suc.prems by auto
qed

lemma bcast_same: "length xs = prod_list s \<Longrightarrow> bcast s s xs = Some xs"
proof (induction s arbitrary: xs)
  case Nil
  then show ?case by simp
next
  case (Cons a s)
  have len: "length xs = a * prod_list s" using Cons.prems by simp
  have "map (bcast s s) (chunks a (prod_list s) xs) = map Some (chunks a (prod_list s) xs)"
    using Cons.IH chunks_all_length [OF len] by (intro map_cong) auto
  then have "those (map (bcast s s) (chunks a (prod_list s) xs)) = Some (chunks a (prod_list s) xs)"
    by (simp only: those_map_Some)
  then have "bcast (a # s) (a # s) xs = Some (concat (chunks a (prod_list s) xs))"
    by simp
  then show ?case by (simp only: concat_chunks [OF len])
qed

lemma broadcast_to_same: "wf_tensor v \<Longrightarrow> broadcast_to v (tshape v) = Inr v"
  by (cases v) (simp add: broadcast_to_def wf_tensor_def bcast_same)

lemma setitem_same_shape:
  assumes "wf_tensor v" "tshape v = s" "0 \<le> i" "i < int (length xs)"
  shows "setitem s xs i v = Inr (xs[nat i := v])"
  using assms broadcast_to_same [of v] by (simp add: setitem_def norm_index_def)

lemma getitem_in_range:
  "0 \<le> i \<Longrightarrow> i < int (length xs) \<Longrightarrow> getitem xs i = xs ! nat i"
proof -
  assume a: "0 \<le> i" "i < int (length xs)"
  then have "max 0 (min (int (length xs) - 1) (norm_index (int (length xs)) i)) = i"
    by (simp add: norm_index_def)
  then show ?thesis by (simp add: getitem_def)
qed

lemma LengthDelay_update_ok:
  assumes "wf_delay self" "wf_tensor v" "tshape v = shape self"
  shows "LengthDelay_update self v =
           Inr (self\<lparr>data := (data self)[nat (idx self) := v],
                     idx := (idx self + 1) mod num_delay_step self\<rparr>)"
  using assms by (simp add: LengthDelay_update_def wf_delay_def setitem_same_shape)

lemma TimeDelay_update_ok:
  assumes "wf_delay self" "wf_tensor v" "tshape v = shape self"
  shows "TimeDelay_update self time v =
           Inr (self\<lparr>data := (data self)[nat (idx self) := v], current_time := time,
                     idx := (idx self + 1) mod num_delay_step self\<rparr>)"
  using assms by (simp add: TimeDelay_update_def wf_delay_def setitem_same_shape)

lemma wf_delay_step:
  "wf_delay self \<Longrightarrow>
   wf_delay (self\<lparr>data := (data self)[k := v], idx := (idx self + 1) mod num_delay_step self\<rparr>)"
  by (simp add: wf_delay_def)

lemma LengthDelay_updates_ring:
  assumes "wf_delay self" "\<forall>v \<in> set vs. wf_tensor v \<and> tshape v = shape self"
  shows "LengthDelay_updates self vs =
           Inr (self\<lparr>data := fst (ring_writes (data self) (idx self) (num_delay_step self) vs),
                     idx := snd (ring_writes (data self) (idx self) (num_delay_step self) vs)\<rparr>)"
  using assms
proof (induction vs arbitrary: self)
  case Nil
  then show ?case by simp
next
  case (Cons v vs)
  let ?s = "self\<lparr>data := (data self)[nat (idx self) := v],
                     idx := (idx self + 1) mod num_delay_step self\<rparr>"
  have u: "LengthDelay_update self v = Inr ?s"
    using Cons.prems by (simp add: LengthDelay_update_ok)
  have w: "wf_delay ?s" using Cons.prems(1) by (rule wf_delay_step)
  have "LengthDelay_updates ?s vs = Inr (?s\<lparr>data := fst (ring_writes (data ?s) (idx ?s) (num_delay_step ?s) vs),
                     idx := snd (ring_writes (data ?s) (idx ?s) (num_delay_step ?s) vs)\<rparr>)"
    using Cons.prems(2) by (intro Cons.IH [OF w]) simp
  then show ?case using u by simp
qed

lemma mod_shift_neq:
  fixes a c j :: int
  assumes "0 < j" "j < c"
  shows "(a - j) mod c \<noteq> a mod c"
proof
  assume "(a - j) mod c = a mod c"
  then have "c dvd (a - (a - j))" by (metis mod_eq_dvd_iff)
  then have "c dvd j" by simp
  then show False using assms by (meson zdvd_not_zless)
qed

lemma ring_writes_slots:
  assumes "0 < c" "int (length d) = c" "0 \<le> i" "i < c"
  shows "snd (ring_writes d i c vs) = (i + int (length vs)) mod c \<and>
         length (fst (ring_writes d i c vs)) = length d \<and>
         (\<forall>j. j < length vs \<and> int j < c \<longrightarrow>
              fst (ring_writes d i c vs) ! nat ((i + int (length vs) - 1 - int j) mod c)
                = vs ! (length vs - 1 - j)) \<and>
         (\<forall>j. length vs \<le> j \<and> int j < c \<longrightarrow>
              fst (ring_writes d i c vs) ! nat ((i + int (length vs) - 1 - int j) mod c)
                = d ! nat ((i + int (length vs) - 1 - int j) mod c))"
  using assms
proof (induction vs arbitrary: d i)
  case Nil
  then show ?case by simp
next
  case (Cons v vs)
  let ?d = "d[nat i := v]" and ?i = "(i + 1) mod c"
  let ?r = "fst (ring_writes ?d ?i c vs)"
  have i': "0 \<le> ?i" "?i < c" using Cons.prems by simp_all
  have ld: "int (length ?d) = c" using Cons.prems by simp
  note IH = Cons.IH [OF Cons.prems(1) ld i']
  have shift: "(?i + int (length vs) - 1 - int j) mod c = (i + int (length vs) - int j) mod c" for j
  proof -
    have "(?i + (int (length vs) - 1 - int j)) mod c = ((i + 1) + (int (length vs) - 1 - int j)) mod c"
      by (rule mod_add_left_eq)
    then show ?thesis by (simp add: algebra_simps)
  qed
  have idx: "snd (ring_writes d i c (v # vs)) = (i + int (length (v # vs))) mod c"
    using IH by (simp add: mod_simps algebra_simps)
  have len: "length (fst (ring_writes d i c (v # vs))) = length d"
    using IH by simp
  have new: "fst (ring_writes d i c (v # vs)) ! nat ((i + int (length (v # vs)) - 1 - int j) mod c)
                = (v # vs) ! (length (v # vs) - 1 - j)"
    if j: "j < length (v # vs)" "int j < c" for j
  proof (cases "j < length vs")
    case True
    then have "?r ! nat ((?i + int (length vs) - 1 - int j) mod c) = vs ! (length vs - 1 - j)"
      using IH j by blast
    moreover have "(v # vs) ! (length vs - j) = vs ! (length vs - 1 - j)"
      using True by (simp add: nth_Cons')
    ultimately show ?thesis by (simp add: shift)
  next
    case False
    then have jn: "j = length vs" using j by simp
    have "?r ! nat ((?i + int (length vs) - 1 - int j) mod c)
            = ?d ! nat ((?i + int (length vs) - 1 - int j) mod c)"
      using IH j jn by blast
    moreover have "(?i + int (length vs) - 1 - int j) mod c = i"
      using Cons.prems by (simp only: shift jn) simp
    ultimately have "?r ! nat i = ?d ! nat i" by simp
    moreover have "nat i < length d" using Cons.prems by linarith
    ultimately show ?thesis using jn Cons.prems by simp
  qed
  have old: "fst (ring_writes d i c (v # vs)) ! nat ((i + int (length (v # vs)) - 1 - int j) mod c)
                = d ! nat ((i + int (length (v # vs)) - 1 - int j) mod c)"
    if j: "length (v # vs) \<le> j" "int j < c" for j
  proof -
    let ?k = "(i + int (length vs) - int j) mod c"
    have "?r ! nat ((?i + int (length vs) - 1 - int j) mod c)
            = ?d ! nat ((?i + int (length vs) - 1 - int j) mod c)"
      using IH j by simp
    then have 1: "?r ! nat ?k = ?d ! nat ?k" by (simp add: shift)
    have "(i - (int j - int (length vs))) mod c \<noteq> i mod c"
      using j by (intro mod_shift_neq) auto
    then have "?k \<noteq> i" using Cons.prems by (simp add: algebra_simps)
    moreover have "0 \<le> ?k" using Cons.prems by simp
    ultimately have "nat ?k \<noteq> nat i" using Cons.prems(3) by linarith
    then have "?d ! nat ?k = d ! nat ?k" by simp
    then show ?thesis using 1 by simp
  qed
  show ?case using idx len new old by blast
qed

lemma TimeDelay_updates_ring:
  assumes "wf_delay self" "\<forall>tv \<in> set tvs. wf_tensor (snd tv) \<and> tshape (snd tv) = shape self"
  shows "\<exists>t. TimeDelay_updates self tvs =
           Inr (self\<lparr>data := fst (ring_writes (data self) (idx self) (num_delay_step self) (map snd tvs)),
                     current_time := t,
                     idx := snd (ring_writes (data self) (idx self) (num_delay_step self) (map snd tvs))\<rparr>)"
  using assms
proof (induction tvs arbitrary: self)
  case Nil
  show ?case by (rule exI [of _ "current_time self"]) simp
next
  case (Cons tv tvs)
  let ?s = "self\<lparr>data := (data self)[nat (idx self) := snd tv], current_time := fst tv,
                     idx := (idx self + 1) mod num_delay_step self\<rparr>"
  have u: "TimeDelay_update self (fst tv) (snd tv) = Inr ?s"
    using Cons.prems by (simp add: TimeDelay_update_ok)
  have w: "wf_delay ?s" using Cons.prems(1) by (simp add: wf_delay_def)
  have "\<exists>t. TimeDelay_updates ?s tvs = Inr (?s\<lparr>data := fst (ring_writes (data ?s) (idx ?s) (num_delay_step ?s) (map snd tvs)),
                     current_time := t,
                     idx := snd (ring_writes (data ?s) (idx ?s) (num_delay_step ?s) (map snd tvs))\<rparr>)"
    using Cons.prems(2) by (intro Cons.IH [OF w]) simp
  then show ?case using u by auto
qed

lemma ring_slots_cover:
  fixes c k a :: int
  assumes "0 < c" "0 \<le> k" "k < c"
  shows "\<exists>j. j < nat c \<and> k = (a - int j) mod c"
proof -
  let ?j = "nat ((a - k) mod c)"
  have "?j < nat c" using assms by simp
  moreover have "(a - int ?j) mod c = k"
  proof -
    have "int ?j = (a - k) mod c" using assms by simp
    then have "(a - int ?j) mod c = (a - (a - k) mod c) mod c" by simp
    also have "\<dots> = (a - (a - k)) mod c" by (rule mod_diff_right_eq)
    also have "\<dots> = k" using assms by simp
    finally show ?thesis .
  qed
  ultimately show ?thesis by metis
qed

lemma ring_writes_timeline:
  assumes "0 < c" "int (length d) = c" "0 \<le> i" "i < c"
      and j: "j \<le> length vs" "int j < c"
  shows "fst (ring_writes d i c vs) ! nat ((i + int (length vs) - 1 - int j) mod c)
           = (d ! nat ((i - 1) mod c) # vs) ! (length vs - j)"
proof (cases "j < length vs")
  case True
  then have "(d ! nat ((i - 1) mod c) # vs) ! (length vs - j) = vs ! (length vs - 1 - j)"
    by (simp add: nth_Cons')
  then show ?thesis using ring_writes_slots [OF assms(1-4), of vs] True j by simp
next
  case False
  then have jn: "j = length vs" using j by simp
  then have "fst (ring_writes d i c vs) ! nat ((i + int (length vs) - 1 - int j) mod c)
              = d ! nat ((i + int (length vs) - 1 - int j) mod c)"
    using ring_writes_slots [OF assms(1-4), of vs] j by blast
  then show ?thesis by (simp add: jn)
qed

section \<open>Properties of the delay variables\<close>

lemma ld_example_init: "LengthDelay_init (scalar 0) (Some 2) InitNone = Inr ld_example"
  by (simp add: LengthDelay_init_def LengthDelay_reset_def ld_example_def scalar_def zeros_def
      setitem_def broadcast_to_def norm_index_def numeral_3_eq_3)

lemma td_example_init:
  "TimeDelay_init (scalar 0) 2 BeforeNone 0 1 INTERP_LINEAR = Inr td_example"
  by (simp add: TimeDelay_init_def td_example_def scalar_def zeros_def INTERP_LINEAR_def
      INTERP_ROUND_def setitem_def broadcast_to_def norm_index_def numeral_3_eq_3)

lemma td_example_update:
  "TimeDelay_update td_example 1 (scalar 7) =
     Inr (td_example\<lparr>data := [scalar 7, scalar 0, scalar 0], current_time := 1, idx := 1\<rparr>)"
  by (simp add: TimeDelay_update_def td_example_def scalar_def setitem_def broadcast_to_def norm_index_def)

text \<open>
  C1. In linear mode, a read whose remainder is zero should return the sample at ring slot
  \<open>(write_index + steps) mod capacity\<close>. The exact branch \<^verbatim>\<open>_true_fn\<close> indexes the ring
  with \<open>write_index + steps\<close> and takes no remainder: after one update at time 1 with
  sample 7, the read at the current time computes slot 3 of a ring of 3 slots and returns
  the stale sample 0 of the last slot, while slot \<open>(1 + 2) mod 3 = 0\<close> holds 7.
\<close>

theorem true_fn_reads_outside_ring:
  "TimeDelay_init (scalar 0) 2 BeforeNone 0 1 INTERP_LINEAR = Inr td_example \<and>
   TimeDelay_update td_example 1 (scalar 7) =
     Inr (td_example\<lparr>data := [scalar 7, scalar 0, scalar 0], current_time := 1, idx := 1\<rparr>) \<and>
   TimeDelay_call True
     (td_example\<lparr>data := [scalar 7, scalar 0, scalar 0], current_time := 1, idx := 1\<rparr>) 1 None
     = Inr (scalar 0) \<and>
   [scalar 7, scalar 0, scalar 0] ! nat ((1 + 2) mod 3) = scalar 7"
  by (simp add: td_example_init td_example_update)
     (simp add: TimeDelay_call_def td_example_def after_t0_def trunc_def true_fn_def
       getitem_def norm_index_def scalar_def)

lemma LengthDelay_updates_fields:
  assumes "wf_delay self" "\<forall>v \<in> set vs. wf_tensor v \<and> tshape v = shape self"
  shows "\<exists>self'. LengthDelay_updates self vs = Inr self' \<and>
           data self' = fst (ring_writes (data self) (idx self) (num_delay_step self) vs) \<and>
           idx self' = snd (ring_writes (data self) (idx self) (num_delay_step self) vs)"
  by (simp add: LengthDelay_updates_ring [OF assms])

lemma TimeDelay_updates_fields:
  assumes "wf_delay self" "\<forall>tv \<in> set tvs. wf_tensor (snd tv) \<and> tshape (snd tv) = shape self"
  shows "\<exists>self'. TimeDelay_updates self tvs = Inr self' \<and>
           data self' = fst (ring_writes (data self) (idx self) (num_delay_step self) (map snd tvs)) \<and>
           idx self' = snd (ring_writes (data self) (idx self) (num_delay_step self) (map snd tvs))"
proof -
  obtain t where "TimeDelay_updates self tvs =
           Inr (self\<lparr>data := fst (ring_writes (data self) (idx self) (num_delay_step self) (map snd tvs)),
                     current_time := t,
                     idx := snd (ring_writes (data self) (idx self) (num_delay_step self) (map snd tvs))\<rparr>)"
    using TimeDelay_updates_ring [OF assms] by blast
  then show ?thesis by simp
qed

lemma ring_writes_ages:
  assumes "wf_delay self"
      and j: "j \<le> min (length vs) (nat (num_delay_step self) - 1)"
  shows "snd (ring_writes (data self) (idx self) (num_delay_step self) vs)
           = (idx self + int (length vs)) mod num_delay_step self"
    and "fst (ring_writes (data self) (idx self) (num_delay_step self) vs) !
           nat ((idx self + int (length vs) - 1 - int j) mod num_delay_step self)
         = (data self ! nat ((idx self - 1) mod num_delay_step self) # vs) ! (length vs - j)"
proof -
  have l: "0 < num_delay_step self" "int (length (data self)) = num_delay_step self"
          "0 \<le> idx self" "idx self < num_delay_step self"
    using assms(1) by (simp_all add: wf_delay_def)
  show "snd (ring_writes (data self) (idx self) (num_delay_step self) vs)
           = (idx self + int (length vs)) mod num_delay_step self"
    using ring_writes_slots [OF l, of vs] by blast
  have "j \<le> length vs" using j by simp
  moreover have "int j < num_delay_step self" using j l(1) by linarith
  ultimately show "fst (ring_writes (data self) (idx self) (num_delay_step self) vs) !
           nat ((idx self + int (length vs) - 1 - int j) mod num_delay_step self)
         = (data self ! nat ((idx self - 1) mod num_delay_step self) # vs) ! (length vs - j)"
    by (rule ring_writes_timeline [OF l])
qed

text \<open>
  C2 (as amended). Let the timeline of a buffer be the sample that slot
  \<open>(i0 - 1) mod C\<close> holds before the first update, followed by the values of the updates.
  After \<open>n\<close> updates with values of the buffer's shape, of either variant, the write index
  is \<open>(i0 + n) mod C\<close>, and for every \<open>j \<le> min n (C - 1)\<close> the sample that is \<open>j\<close> updates
  old is stored at slot \<open>(i0 + n - 1 - j) mod C\<close>. So the most recent sample is at slot
  \<open>(i0 + n - 1) mod C\<close>, one before the write index, and the oldest retained sample is
  \<open>min n (C - 1)\<close> updates old.
\<close>

theorem ring_invariant:
  assumes "wf_delay ld" "\<forall>v \<in> set vs. wf_tensor v \<and> tshape v = shape ld"
      and "wf_delay td" "\<forall>tv \<in> set tvs. wf_tensor (snd tv) \<and> tshape (snd tv) = shape td"
  shows "(\<exists>ld'. LengthDelay_updates ld vs = Inr ld' \<and>
            idx ld' = (idx ld + int (length vs)) mod num_delay_step ld \<and>
            (\<forall>j. j \<le> min (length vs) (nat (num_delay_step ld) - 1) \<longrightarrow>
               data ld' ! nat ((idx ld + int (length vs) - 1 - int j) mod num_delay_step ld)
                 = (data ld ! nat ((idx ld - 1) mod num_delay_step ld) # vs) ! (length vs - j))) \<and>
         (\<exists>td'. TimeDelay_updates td tvs = Inr td' \<and>
            idx td' = (idx td + int (length tvs)) mod num_delay_step td \<and>
            (\<forall>j. j \<le> min (length tvs) (nat (num_delay_step td) - 1) \<longrightarrow>
               data td' ! nat ((idx td + int (length tvs) - 1 - int j) mod num_delay_step td)
                 = (data td ! nat ((idx td - 1) mod num_delay_step td) # map snd tvs) ! (length tvs - j)))"
proof (intro conjI)
  obtain ld' where l: "LengthDelay_updates ld vs = Inr ld'"
      "data ld' = fst (ring_writes (data ld) (idx ld) (num_delay_step ld) vs)"
      "idx ld' = snd (ring_writes (data ld) (idx ld) (num_delay_step ld) vs)"
    using LengthDelay_updates_fields [OF assms(1,2)] by blast
  have "idx ld' = (idx ld + int (length vs)) mod num_delay_step ld"
    using ring_writes_ages(1) [OF assms(1), of 0 vs] l(3) by simp
  moreover have "\<forall>j. j \<le> min (length vs) (nat (num_delay_step ld) - 1) \<longrightarrow>
               data ld' ! nat ((idx ld + int (length vs) - 1 - int j) mod num_delay_step ld)
                 = (data ld ! nat ((idx ld - 1) mod num_delay_step ld) # vs) ! (length vs - j)"
    using ring_writes_ages(2) [OF assms(1)] l(2) by simp
  ultimately show "\<exists>ld'. LengthDelay_updates ld vs = Inr ld' \<and>
            idx ld' = (idx ld + int (length vs)) mod num_delay_step ld \<and>
            (\<forall>j. j \<le> min (length vs) (nat (num_delay_step ld) - 1) \<longrightarrow>
               data ld' ! nat ((idx ld + int (length vs) - 1 - int j) mod num_delay_step ld)
                 = (data ld ! nat ((idx ld - 1) mod num_delay_step ld) # vs) ! (length vs - j))"
    using l(1) by blast
next
  obtain td' where t: "TimeDelay_updates td tvs = Inr td'"
      "data td' = fst (ring_writes (data td) (idx td) (num_delay_step td) (map snd tvs))"
      "idx td' = snd (ring_writes (data td) (idx td) (num_delay_step td) (map snd tvs))"
    using TimeDelay_updates_fields [OF assms(3,4)] by blast
  have "idx td' = (idx td + int (length tvs)) mod num_delay_step td"
    using ring_writes_ages(1) [OF assms(3), of 0 "map snd tvs"] t(3) by simp
  moreover have "\<forall>j. j \<le> min (length tvs) (nat (num_delay_step td) - 1) \<longrightarrow>
               data td' ! nat ((idx td + int (length tvs) - 1 - int j) mod num_delay_step td)
                 = (data td ! nat ((idx td - 1) mod num_delay_step td) # map snd tvs) ! (length tvs - j)"
    using ring_writes_ages(2) [OF assms(3), of _ "map snd tvs"] t(2) by simp
  ultimately show "\<exists>td'. TimeDelay_updates td tvs = Inr td' \<and>
            idx td' = (idx td + int (length tvs)) mod num_delay_step td \<and>
            (\<forall>j. j \<le> min (length tvs) (nat (num_delay_step td) - 1) \<longrightarrow>
               data td' ! nat ((idx td + int (length tvs) - 1 - int j) mod num_delay_step td)
                 = (data td ! nat ((idx td - 1) mod num_delay_step td) # map snd tvs) ! (length tvs - j))"
    using t(1) by blast
qed


text \<open>The ring invariant at the example buffers, after one update with the sample 7.\<close>

theorem ring_invariant_witness:
  "wf_delay ld_example \<and> wf_tensor (scalar 7) \<and> tshape (scalar 7) = shape ld_example \<and>
   wf_delay td_example \<and> tshape (scalar 7) = shape td_example \<and>
   (\<exists>ld'. LengthDelay_updates ld_example [scalar 7] = Inr ld' \<and> idx ld' = 1 \<and>
       data ld' ! 0 = scalar 7 \<and> data ld' ! 2 = scalar 0) \<and>
   (\<exists>td'. TimeDelay_updates td_example [(1, scalar 7)] = Inr td' \<and> idx td' = 1 \<and>
       data td' ! 0 = scalar 7 \<and> data td' ! 2 = scalar 0)"
proof -
  have h: "wf_delay ld_example" "\<forall>v \<in> set [scalar 7]. wf_tensor v \<and> tshape v = shape ld_example"
          "wf_delay td_example"
          "\<forall>tv \<in> set [(1, scalar 7)]. wf_tensor (snd tv) \<and> tshape (snd tv) = shape td_example"
    by (simp_all add: wf_delay_def ld_example_def td_example_def wf_tensor_def scalar_def)
  note r = ring_invariant [OF h]
  obtain ld' where l: "LengthDelay_updates ld_example [scalar 7] = Inr ld'"
      "idx ld' = (idx ld_example + int (length [scalar 7])) mod num_delay_step ld_example"
      "\<forall>j. j \<le> min (length [scalar 7]) (nat (num_delay_step ld_example) - 1) \<longrightarrow>
          data ld' ! nat ((idx ld_example + int (length [scalar 7]) - 1 - int j)
                           mod num_delay_step ld_example)
            = (data ld_example ! nat ((idx ld_example - 1) mod num_delay_step ld_example)
                 # [scalar 7]) ! (length [scalar 7] - j)"
    using r by blast
  obtain td' where t: "TimeDelay_updates td_example [(1, scalar 7)] = Inr td'"
      "idx td' = (idx td_example + int (length [(1::rat, scalar 7)])) mod num_delay_step td_example"
      "\<forall>j. j \<le> min (length [(1::rat, scalar 7)]) (nat (num_delay_step td_example) - 1) \<longrightarrow>
          data td' ! nat ((idx td_example + int (length [(1::rat, scalar 7)]) - 1 - int j)
                           mod num_delay_step td_example)
            = (data td_example ! nat ((idx td_example - 1) mod num_delay_step td_example)
                 # map snd [(1::rat, scalar 7)]) ! (length [(1::rat, scalar 7)] - j)"
    using r by blast
  have l0: "data ld' ! 0 = scalar 7" using l(3) [rule_format, of 0]
    by (simp add: ld_example_def)
  have l1: "data ld' ! 2 = scalar 0" using l(3) [rule_format, of 1]
    by (simp add: ld_example_def)
  have t0: "data td' ! 0 = scalar 7" using t(3) [rule_format, of 0]
    by (simp add: td_example_def)
  have t1: "data td' ! 2 = scalar 0" using t(3) [rule_format, of 1]
    by (simp add: td_example_def)
  have "idx ld' = 1" using l(2) by (simp add: ld_example_def)
  moreover have "idx td' = 1" using t(2) by (simp add: td_example_def)
  ultimately show ?thesis
    using h l(1) t(1) l0 l1 t0 t1 by simp
qed

text \<open>
  C2 as stated fails: after one update of the three-slot buffer with the sample 7, neither
  slot \<open>(i0 + 1) mod 3\<close> nor the slot of the new write index holds 7.
\<close>

theorem write_index_slot_is_not_most_recent:
  "LengthDelay_updates ld_example [scalar 7]
     = Inr (ld_example\<lparr>data := [scalar 7, scalar 0, scalar 0], idx := 1\<rparr>) \<and>
   data (ld_example\<lparr>data := [scalar 7, scalar 0, scalar 0], idx := 1\<rparr>)
     ! nat ((idx ld_example + 1) mod num_delay_step ld_example) \<noteq> scalar 7 \<and>
   data (ld_example\<lparr>data := [scalar 7, scalar 0, scalar 0], idx := 1\<rparr>)
     ! nat (idx (ld_example\<lparr>data := [scalar 7, scalar 0, scalar 0], idx := 1\<rparr>)) \<noteq> scalar 7"
  by (simp add: LengthDelay_update_def ld_example_def scalar_def setitem_def broadcast_to_def
      norm_index_def)

text \<open>
  C4 (as amended). On a well-formed length-based buffer, a read fails with the out-of-range
  error exactly when checking is enabled and \<open>steps_back \<ge> capacity\<close>; every other read
  returns the sample at slot \<open>(write_index - steps_back - 1) mod capacity\<close>; and right after
  \<open>update(v)\<close> with a value of the buffer's shape, the read with \<open>steps_back = 0\<close> returns \<open>v\<close>.
\<close>

theorem LengthDelay_read:
  assumes "wf_delay self"
  shows "(LengthDelay_call checking self k None = Inl ValueError_request_delay_too_long
            \<longleftrightarrow> checking \<and> num_delay_step self \<le> k) \<and>
         (\<not> (checking \<and> num_delay_step self \<le> k) \<longrightarrow>
            LengthDelay_call checking self k None
              = Inr (data self ! nat ((idx self - k - 1) mod num_delay_step self))) \<and>
         (wf_tensor v \<and> tshape v = shape self \<longrightarrow>
            (\<exists>self'. LengthDelay_update self v = Inr self' \<and>
                     LengthDelay_call checking self' 0 None = Inr v))"
proof -
  have c: "0 < num_delay_step self" "int (length (data self)) = num_delay_step self"
          "0 \<le> idx self" "idx self < num_delay_step self"
    using assms by (simp_all add: wf_delay_def)
  have g: "getitem (data self) ((idx self - k - 1) mod num_delay_step self)
             = data self ! nat ((idx self - k - 1) mod num_delay_step self)"
    using c by (intro getitem_in_range) simp_all
  have 1: "LengthDelay_call checking self k None = Inl ValueError_request_delay_too_long
            \<longleftrightarrow> checking \<and> num_delay_step self \<le> k"
    by (simp add: LengthDelay_call_def Let_def)
  have 2: "\<not> (checking \<and> num_delay_step self \<le> k) \<longrightarrow>
            LengthDelay_call checking self k None
              = Inr (data self ! nat ((idx self - k - 1) mod num_delay_step self))"
    using g by (auto simp add: LengthDelay_call_def Let_def)
  have 3: "\<exists>self'. LengthDelay_update self v = Inr self' \<and>
                     LengthDelay_call checking self' 0 None = Inr v"
    if v: "wf_tensor v" "tshape v = shape self"
  proof -
    let ?s = "self\<lparr>data := (data self)[nat (idx self) := v],
                     idx := (idx self + 1) mod num_delay_step self\<rparr>"
    have u: "LengthDelay_update self v = Inr ?s"
      using assms v by (rule LengthDelay_update_ok)
    have m: "((idx self + 1) mod num_delay_step self - 0 - 1) mod num_delay_step self = idx self"
    proof -
      have "((idx self + 1) mod num_delay_step self - 1) mod num_delay_step self
              = ((idx self + 1) - 1) mod num_delay_step self"
        by (rule mod_diff_left_eq)
      then show ?thesis using c by simp
    qed
    have "getitem ((data self)[nat (idx self) := v]) (idx self) = v"
      using c by (simp add: getitem_in_range)
    then have "LengthDelay_call checking ?s 0 None = Inr v"
      using c m by (simp add: LengthDelay_call_def Let_def)
    then show ?thesis using u by blast
  qed
  show ?thesis using 1 2 3 by blast
qed

text \<open>The read contract at the example buffer.\<close>

theorem LengthDelay_read_witness:
  "wf_delay ld_example \<and> \<not> (True \<and> num_delay_step ld_example \<le> 1) \<and>
   wf_tensor (scalar 7) \<and> tshape (scalar 7) = shape ld_example \<and>
   LengthDelay_call True ld_example 3 None = Inl ValueError_request_delay_too_long \<and>
   LengthDelay_call True ld_example 1 None = Inr (scalar 0) \<and>
   (\<exists>self'. LengthDelay_update ld_example (scalar 7) = Inr self' \<and>
            LengthDelay_call True self' 0 None = Inr (scalar 7))"
proof -
  have h: "wf_delay ld_example"
    by (simp add: wf_delay_def ld_example_def)
  have v: "wf_tensor (scalar 7) \<and> tshape (scalar 7) = shape ld_example"
    by (simp add: wf_tensor_def scalar_def ld_example_def)
  have n: "\<not> (True \<and> num_delay_step ld_example \<le> 1)"
    by (simp add: ld_example_def)
  have a: "LengthDelay_call True ld_example 3 None = Inl ValueError_request_delay_too_long"
    using LengthDelay_read [OF h, of True 3] by (simp add: ld_example_def)
  have b: "LengthDelay_call True ld_example 1 None = Inr (scalar 0)"
    using LengthDelay_read [OF h, of True 1] n by (simp add: ld_example_def)
  have c: "\<exists>self'. LengthDelay_update ld_example (scalar 7) = Inr self' \<and>
            LengthDelay_call True self' 0 None = Inr (scalar 7)"
    using LengthDelay_read [OF h, of True 0 "scalar 7"] v by blast
  show ?thesis using h v n a b c by blast
qed

text \<open>
  C4 as stated fails: with checking enabled, a read with \<open>steps_back = -1\<close> is outside
  \<open>0 \<le> steps_back < capacity\<close> and still returns a sample.
\<close>

theorem negative_steps_back_is_not_rejected:
  "LengthDelay_call True ld_example (- 1) None = Inr (scalar 0) \<and>
   \<not> (0 \<le> (- 1 :: int) \<and> - 1 < num_delay_step ld_example)"
  by (simp add: LengthDelay_call_def ld_example_def getitem_def norm_index_def)

lemma ld_vec_example_init:
  "LengthDelay_init (zeros [3]) (Some 2) InitNone = Inr ld_vec_example"
  by (simp add: LengthDelay_init_def LengthDelay_reset_def ld_vec_example_def zeros_def
      setitem_def broadcast_to_def norm_index_def numeral_3_eq_3 Let_def)

lemma td_vec_example_init:
  "TimeDelay_init (zeros [3]) 2 BeforeNone 0 1 INTERP_LINEAR = Inr td_vec_example"
  by (simp add: TimeDelay_init_def td_vec_example_def zeros_def INTERP_LINEAR_def
      INTERP_ROUND_def setitem_def broadcast_to_def norm_index_def numeral_3_eq_3 Let_def)

text \<open>
  C5. An update with a value whose shape differs from the buffer's shape should fail with a
  shape-mismatch error in both variants. \<^verbatim>\<open>LengthDelay.update\<close> compares the shapes and
  raises; \<^verbatim>\<open>TimeDelay.update\<close> has no such check: a scalar written to a buffer of shape
  \<open>(3,)\<close> is broadcast into the slot and the update succeeds.
\<close>

theorem TimeDelay_update_accepts_other_shape:
  "TimeDelay_init (zeros [3]) 2 BeforeNone 0 1 INTERP_LINEAR = Inr td_vec_example \<and>
   tshape (scalar 5) \<noteq> shape td_vec_example \<and>
   TimeDelay_update td_vec_example 1 (scalar 5)
     = Inr (td_vec_example\<lparr>data := [Tensor [3] [5, 5, 5], zeros [3], zeros [3]],
                            current_time := 1, idx := 1\<rparr>) \<and>
   LengthDelay_init (zeros [3]) (Some 2) InitNone = Inr ld_vec_example \<and>
   LengthDelay_update ld_vec_example (scalar 5) = Inl ValueError_value_shape"
  by (simp add: td_vec_example_init ld_vec_example_init)
     (simp add: TimeDelay_update_def LengthDelay_update_def td_vec_example_def
       ld_vec_example_def scalar_def setitem_def broadcast_to_def norm_index_def
       numeral_3_eq_3)









section \<open>Properties of the neuron groups\<close>


lemma ones_times_number: "num_of v = Some x \<Longrightarrow> as_array v = Some (scalar x)"
  by (cases v) (auto simp add: as_array_def)

text \<open>
  C9. A call with a non-empty \<^verbatim>\<open>vars_init\<close> (or \<^verbatim>\<open>pars_update\<close>) that names a defined
  variable (parameter) should succeed and store the overriding value. Both override loops
  iterate the dictionary itself, that is its keys, and unpack each key into \<^verbatim>\<open>k, v\<close>: for
  the group with the variable \<^verbatim>\<open>V\<close> and the parameter \<^verbatim>\<open>tau\<close>, overriding either one fails
  with the unpacking error, while the call without overrides succeeds.
\<close>

theorem override_loops_unpack_the_keys:
  "NeuGroup_call False neu_example (PInt 10) None (Some [(PStr ''V'', PFloat 1)]) (Some [])
     = Inl ValueError_unpack \<and>
   NeuGroup_call False neu_example (PInt 10) None (Some []) (Some [(PStr ''tau'', PFloat 20)])
     = Inl ValueError_unpack \<and>
   NeuGroup_call False neu_example (PInt 10) None (Some []) (Some [])
     = Inr \<lparr>num = 10, geometry = (1, 10), var2index = None,
            state = [(PStr ''V'', Tensor [10] (replicate 10 0))],
            P = [(PStr ''tau'', PFloat 10)],
            update_funcs = [UserStep 0], mon_keys = []\<rparr>"
proof -
  have g: "format_geometry (PInt 10) = Inr (1, 10)"
    by (simp add: format_geometry_def trunc_def)
  have u: "unpack2 (PStr ''V'') = Inl ValueError_unpack"
          "unpack2 (PStr ''tau'') = Inl ValueError_unpack"
    by (simp_all add: unpack2_def)
  have t: "trunc 10 = 10" by (simp add: trunc_def)
  have b: "ones_times 10 (PFloat 0) = Inr (Tensor [10] (replicate 10 0))"
    by (simp add: ones_times_def as_array_def scalar_def broadcast_to_def)
  have 1: "NeuGroup_call False neu_example (PInt 10) None (Some [(PStr ''V'', PFloat 1)]) (Some [])
     = Inl ValueError_unpack"
    by (simp add: NeuGroup_call_def g u neu_example_def)
  have 2: "NeuGroup_call False neu_example (PInt 10) None (Some []) (Some [(PStr ''tau'', PFloat 20)])
     = Inl ValueError_unpack"
    by (simp add: NeuGroup_call_def g u t b neu_example_def)
  have 3: "NeuGroup_call False neu_example (PInt 10) None (Some []) (Some [])
     = Inr \<lparr>num = 10, geometry = (1, 10), var2index = None,
            state = [(PStr ''V'', Tensor [10] (replicate 10 0))],
            P = [(PStr ''tau'', PFloat 10)],
            update_funcs = [UserStep 0], mon_keys = []\<rparr>"
    by (simp add: NeuGroup_call_def g t b neu_example_def is_str_def)
  show ?thesis using 1 2 3 by simp
qed

section \<open>Properties of the network\<close>

lemma net_example_init:
  "Network_init heap_example [0, 1] ''repeat'' [] = Inr net_example"
  by (simp add: Network_init_def add_def add_obj_def heap_example_def net_example_def Let_def)

text \<open>
  C10. \<^verbatim>\<open>Network.add\<close> is not atomic on failure: for an object that is neither a
  \<^verbatim>\<open>NeuGroup\<close> nor a \<^verbatim>\<open>SynConn\<close>, given with or without a name, the call appends the
  object to \<^verbatim>\<open>_all_objects\<close> and then raises the unknown-object-type error, so the failed
  call leaves the list of participants changed.
\<close>

theorem add_unknown_object_is_not_atomic:
  assumes "\<not> is_NeuGroup (h obj)" "\<not> is_SynConn (h obj)"
  shows "add h self [obj] [] =
           (self\<lparr>all_objects := all_objects self @ [obj]\<rparr>, Some ValueError_unknown_object_type) \<and>
         add h self [] [(n, obj)] =
           (self\<lparr>all_objects := all_objects self @ [obj]\<rparr>, Some ValueError_unknown_object_type) \<and>
         all_objects (fst (add h self [obj] [])) \<noteq> all_objects self"
  using assms by (simp add: add_def add_obj_def)

text \<open>Adding an object of an unknown class to the example network.\<close>

theorem add_unknown_object_is_not_atomic_witness:
  "\<not> is_NeuGroup (heap_example 2) \<and> \<not> is_SynConn (heap_example 2) \<and>
   add heap_example net_example [2] [] =
     (net_example\<lparr>all_objects := [0, 1, 2]\<rparr>, Some ValueError_unknown_object_type)"
proof -
  have h: "\<not> is_NeuGroup (heap_example 2)" "\<not> is_SynConn (heap_example 2)"
    by (simp_all add: heap_example_def)
  have "all_objects net_example @ [2] = [0, 1, 2]" by (simp add: net_example_def)
  then show ?thesis
    using h add_unknown_object_is_not_atomic [of heap_example 2 net_example] by simp
qed

lemma format_inputs_wrap_object:
  assumes "is_BrainEnsemble (h obj)"
  shows "format_inputs h ops self (PTuple (PObj obj # rest)) rl
           = format_inputs h ops self (PList [PTuple (PObj obj # rest)]) rl"
    and "format_inputs h ops self (PList (PObj obj # rest)) rl
           = format_inputs h ops self (PList [PList (PObj obj # rest)]) rl"
  using assms by (simp_all add: format_inputs_def is_seq_def seq_items_def)

lemma format_inputs_reject_name:
  "format_inputs h ops self (PTuple (PStr s # rest)) rl = Inl ModelUseError_unknown_input_structure"
  "format_inputs h ops self (PList (PStr s # rest)) rl = Inl ModelUseError_unknown_input_structure"
  by (simp_all add: format_inputs_def is_seq_def seq_items_def)

text \<open>
  C8 (as amended). A single un-wrapped spec, tuple or list, whose target is a direct
  reference to a \<^verbatim>\<open>BrainEnsemble\<close> object is formatted as the one-element list that holds
  it. A single un-wrapped spec whose target is a string name is not wrapped: it fails with
  the unknown-input-structure error.
\<close>

theorem format_inputs_auto_wrap:
  "(is_BrainEnsemble (h obj) \<longrightarrow>
      format_inputs h ops self (PTuple (PObj obj # rest)) rl
        = format_inputs h ops self (PList [PTuple (PObj obj # rest)]) rl \<and>
      format_inputs h ops self (PList (PObj obj # rest)) rl
        = format_inputs h ops self (PList [PList (PObj obj # rest)]) rl) \<and>
   format_inputs h ops self (PTuple (PStr s # rest)) rl
     = Inl ModelUseError_unknown_input_structure \<and>
   format_inputs h ops self (PList (PStr s # rest)) rl
     = Inl ModelUseError_unknown_input_structure"
  using format_inputs_wrap_object [of h obj ops self rest rl]
    format_inputs_reject_name [of h ops self s rest rl]
  by blast

lemma format_wrapped_object_example:
  "format_inputs heap_example [''+'', ''-''] net_example
      (PList [PTuple [PObj 0, PStr ''V'', PFloat 1]]) 5
     = Inr [(''neu'', [(''V'', PFloat 1, PStr ''+'', ''fix'')])]"
  by (simp add: format_inputs_def is_seq_def seq_items_def check_spec_def format_spec_def
      append_input_def heap_example_def net_example_def numeral_3_eq_3)

text \<open>The un-wrapped spec \<^verbatim>\<open>(neu, 'V', 1.)\<close> on the example network.\<close>

theorem format_inputs_auto_wrap_witness:
  "is_BrainEnsemble (heap_example 0) \<and>
   format_inputs heap_example [''+'', ''-''] net_example
      (PTuple [PObj 0, PStr ''V'', PFloat 1]) 5
     = Inr [(''neu'', [(''V'', PFloat 1, PStr ''+'', ''fix'')])]"
proof -
  have h: "is_BrainEnsemble (heap_example 0)" by (simp add: heap_example_def)
  then show ?thesis
    using format_inputs_auto_wrap [of heap_example 0 "[''+'', ''-'']" net_example
        "[PStr ''V'', PFloat 1]" 5]
      format_wrapped_object_example
    by simp
qed

text \<open>
  C8 as stated fails: on the example network the un-wrapped spec \<^verbatim>\<open>('neu', 'V', 1.)\<close> is
  rejected, while the one-element list that holds it is formatted.
\<close>

theorem unwrapped_spec_with_name_is_rejected:
  "format_inputs heap_example [''+'', ''-''] net_example
      (PTuple [PStr ''neu'', PStr ''V'', PFloat 1]) 5
     = Inl ModelUseError_unknown_input_structure \<and>
   format_inputs heap_example [''+'', ''-''] net_example
      (PList [PTuple [PStr ''neu'', PStr ''V'', PFloat 1]]) 5
     = Inr [(''neu'', [(''V'', PFloat 1, PStr ''+'', ''fix'')])]"
  by (simp add: format_inputs_def is_seq_def seq_items_def check_spec_def format_spec_def
      append_input_def heap_example_def net_example_def numeral_3_eq_3)

end
